theory Spec2Isabelle
  imports Complex_Main "HOL-Library.Multiset"
begin

section \<open>Floating-point values\<close>

text \<open>
  The arrays of \<^verbatim>\<open>intensity_based_stat.py\<close> hold numpy floats. A float is modelled as a
  real number or one of the three special values. The operations of this section are exact;
  the statistics built from them are the formulas of the code in exact arithmetic. The
  rounding of the doubles is added where a statement depends on it: in the quotients that
  \<open>_initCalculation\<close> stores and in the double-precision evaluation of the mean, the
  skewness and the kurtosis further below.
  \<open>NaN\<close> is the marker of an invalid (masked-out or padded) entry. The operations are
  defined on all four kinds of value; the statements about arbitrary rows are made for
  rows of finite numbers and NaN, which is what an image of real-valued intensities gives
  after masking and padding (an infinity arises only as the result of a division).
\<close>

datatype val = Fin real | NaN | PInf | NInf

datatype error = ValueError | TypeError | IndexError

datatype result = Scalar val | Vector "val list"

definition isnan :: "val \<Rightarrow> bool" where
  "isnan x = (x = NaN)"

fun is_fin :: "val \<Rightarrow> bool" where
  "is_fin (Fin _) = True"
| "is_fin _ = False"

fun fneg :: "val \<Rightarrow> val" where
  "fneg (Fin a) = Fin (- a)"
| "fneg NaN = NaN"
| "fneg PInf = NInf"
| "fneg NInf = PInf"

fun fadd :: "val \<Rightarrow> val \<Rightarrow> val" where
  "fadd (Fin a) (Fin b) = Fin (a + b)"
| "fadd NaN _ = NaN"
| "fadd _ NaN = NaN"
| "fadd PInf NInf = NaN"
| "fadd NInf PInf = NaN"
| "fadd PInf _ = PInf"
| "fadd NInf _ = NInf"
| "fadd (Fin _) PInf = PInf"
| "fadd (Fin _) NInf = NInf"

definition fsub :: "val \<Rightarrow> val \<Rightarrow> val" where
  "fsub a b = fadd a (fneg b)"

text \<open>The sign of a value that is not NaN: \<open>-1\<close>, \<open>0\<close> or \<open>1\<close>.\<close>

fun fsgn :: "val \<Rightarrow> int" where
  "fsgn (Fin a) = (if a < 0 then - 1 else if a = 0 then 0 else 1)"
| "fsgn PInf = 1"
| "fsgn NInf = - 1"
| "fsgn NaN = 0"

definition inf_of_sign :: "int \<Rightarrow> val" where
  "inf_of_sign s = (if s = 0 then NaN else if s < 0 then NInf else PInf)"

fun fmul :: "val \<Rightarrow> val \<Rightarrow> val" where
  "fmul (Fin a) (Fin b) = Fin (a * b)"
| "fmul NaN _ = NaN"
| "fmul _ NaN = NaN"
| "fmul a b = inf_of_sign (fsgn a * fsgn b)"

text \<open>
  Array division does not raise: a non-zero value divided by zero is an infinity and
  \<open>0 / 0\<close> is NaN (numpy only warns).
\<close>

fun fdiv :: "val \<Rightarrow> val \<Rightarrow> val" where
  "fdiv (Fin a) (Fin b) = (if b = 0 then inf_of_sign (fsgn (Fin a)) else Fin (a / b))"
| "fdiv NaN _ = NaN"
| "fdiv _ NaN = NaN"
| "fdiv (Fin _) _ = Fin 0"
| "fdiv PInf (Fin b) = (if b < 0 then NInf else PInf)"
| "fdiv NInf (Fin b) = (if b < 0 then PInf else NInf)"
| "fdiv _ _ = NaN"

fun fabs :: "val \<Rightarrow> val" where
  "fabs (Fin a) = Fin \<bar>a\<bar>"
| "fabs NaN = NaN"
| "fabs _ = PInf"

fun fsqrt :: "val \<Rightarrow> val" where
  "fsqrt (Fin a) = (if a < 0 then NaN else Fin (sqrt a))"
| "fsqrt PInf = PInf"
| "fsqrt _ = NaN"

text \<open>\<open>x ** k\<close> for a whole exponent \<open>k\<close> (the code uses 2, 3, 4 and the float \<open>2.0\<close>).\<close>

fun fpow :: "val \<Rightarrow> nat \<Rightarrow> val" where
  "fpow (Fin a) k = Fin (a ^ k)"
| "fpow NaN k = (if k = 0 then Fin 1 else NaN)"
| "fpow PInf k = (if k = 0 then Fin 1 else PInf)"
| "fpow NInf k = (if k = 0 then Fin 1 else if even k then PInf else NInf)"

text \<open>\<open>x ** 1.5\<close>: the power of a negative base with a fractional exponent is NaN.\<close>

fun fpow15 :: "val \<Rightarrow> val" where
  "fpow15 (Fin a) = (if a < 0 then NaN else Fin (a powr (3 / 2)))"
| "fpow15 NaN = NaN"
| "fpow15 _ = PInf"

text \<open>Comparisons: every comparison with NaN is false.\<close>

fun feq :: "val \<Rightarrow> val \<Rightarrow> bool" where
  "feq (Fin a) (Fin b) = (a = b)"
| "feq PInf PInf = True"
| "feq NInf NInf = True"
| "feq _ _ = False"

fun flt :: "val \<Rightarrow> val \<Rightarrow> bool" where
  "flt (Fin a) (Fin b) = (a < b)"
| "flt NaN _ = False"
| "flt _ NaN = False"
| "flt NInf NInf = False"
| "flt NInf _ = True"
| "flt PInf _ = False"
| "flt (Fin _) PInf = True"
| "flt (Fin _) NInf = False"

definition fgt :: "val \<Rightarrow> val \<Rightarrow> bool" where
  "fgt a b = flt b a"

definition fle :: "val \<Rightarrow> val \<Rightarrow> bool" where
  "fle a b = (flt a b \<or> feq a b)"

text \<open>\<^verbatim>\<open>np.nan_to_num(x, nan=0, posinf=0, neginf=0)\<close>\<close>

fun nan_to_num :: "val \<Rightarrow> val" where
  "nan_to_num (Fin a) = Fin a"
| "nan_to_num _ = Fin 0"

subsection \<open>Rounding to double precision\<close>

text \<open>
  Where a statement turns on the rounding of the doubles, the result of an operation is
  rounded to the nearest double, ties to the even significand: a double is a whole
  multiple, of at most 53 bits, of a power of two, and \<open>ulp x\<close> is the spacing of the
  doubles around \<open>x\<close>. The exponent range is not bounded (no overflow, no subnormal
  numbers).
\<close>

definition round_even :: "real \<Rightarrow> int" where
  "round_even y =
     (let f = \<lfloor>y\<rfloor>; d = y - of_int f
      in if d < 1 / 2 then f else if 1 / 2 < d then f + 1 else if even f then f else f + 1)"

definition ulp :: "real \<Rightarrow> real" where
  "ulp x = 2 powr of_int (\<lfloor>log 2 \<bar>x\<bar>\<rfloor> - 52)"

definition fl :: "real \<Rightarrow> real" where
  "fl x = (if x = 0 then 0 else of_int (round_even (x / ulp x)) * ulp x)"

fun rd :: "val \<Rightarrow> val" where
  "rd (Fin x) = Fin (fl x)"
| "rd v = v"

section \<open>Reductions over one row\<close>

text \<open>
  Every reduction of the code runs along axis 1, that is once per row of the sample
  matrix. The functions below are numpy's reductions on one row.
\<close>

definition valid :: "val list \<Rightarrow> val list" where
  "valid row = filter (\<lambda>x. \<not> isnan x) row"

definition fsum :: "val list \<Rightarrow> val" where
  "fsum row = foldr fadd row (Fin 0)"

definition nan_to_zero :: "val \<Rightarrow> val" where
  "nan_to_zero x = (if isnan x then Fin 0 else x)"

definition nansum :: "val list \<Rightarrow> val" where
  "nansum row = fsum (map nan_to_zero row)"

text \<open>\<^verbatim>\<open>np.nanmean\<close>: the sum with NaN replaced by 0, divided by the count of entries
  that are not NaN; with no such entry the quotient \<open>0 / 0\<close> is NaN (a warning).\<close>

definition nanmean :: "val list \<Rightarrow> val" where
  "nanmean row = fdiv (nansum row) (Fin (real (length (valid row))))"

text \<open>\<^verbatim>\<open>np.nanstd\<close> with the default \<open>ddof = 0\<close>: the square root of the mean squared
  deviation, the mean being taken over the entries that are not NaN.\<close>

definition nanvar :: "val list \<Rightarrow> val" where
  "nanvar row =
     (let avg = nanmean row;
          sqr = map (\<lambda>x. if isnan x then Fin 0 else fmul (fsub x avg) (fsub x avg)) row
      in if length (valid row) = 0 then NaN
         else fdiv (fsum sqr) (Fin (real (length (valid row)))))"

definition nanstd :: "val list \<Rightarrow> val" where
  "nanstd row = fsqrt (nanvar row)"

text \<open>\<^verbatim>\<open>np.fmin\<close> and \<^verbatim>\<open>np.fmax\<close> return the operand that is not NaN when one is.\<close>

definition fmin :: "val \<Rightarrow> val \<Rightarrow> val" where
  "fmin a b = (if isnan a then b else if isnan b then a else if flt b a then b else a)"

definition fmax :: "val \<Rightarrow> val \<Rightarrow> val" where
  "fmax a b = (if isnan a then b else if isnan b then a else if flt a b then b else a)"

text \<open>\<^verbatim>\<open>np.nanmin\<close> is \<^verbatim>\<open>np.fmin.reduce\<close>, which has no identity: reducing along an
  axis of length 0 raises ValueError. A row of NaN only gives NaN (a warning).\<close>

fun nanmin :: "val list \<Rightarrow> error + val" where
  "nanmin [] = Inl ValueError"
| "nanmin (x # xs) = Inr (foldl fmin x xs)"

fun nanmax :: "val list \<Rightarrow> error + val" where
  "nanmax [] = Inl ValueError"
| "nanmax (x # xs) = Inr (foldl fmax x xs)"

text \<open>Sorting by \<open>\<le>\<close> of the floats (used on rows from which NaN was removed).\<close>

fun insort_val :: "val \<Rightarrow> val list \<Rightarrow> val list" where
  "insort_val x [] = [x]"
| "insort_val x (y # ys) = (if fle x y then x # y # ys else y # insort_val x ys)"

definition sort_val :: "val list \<Rightarrow> val list" where
  "sort_val xs = foldr insort_val xs []"

text \<open>\<^verbatim>\<open>np.nanpercentile(row, q)\<close> with the default linear interpolation: on the sorted
  valid entries, the value at the fractional index \<open>q / 100 * (n - 1)\<close>. numpy
  interpolates between the neighbours \<open>a\<close> and \<open>b\<close> as \<open>a + (b - a) * t\<close>, and from the
  other end, as \<open>b - (b - a) * (1 - t)\<close>, where \<open>t \<ge> 0.5\<close>. A row without valid entries
  gives NaN.\<close>

definition lerp :: "val \<Rightarrow> val \<Rightarrow> real \<Rightarrow> val" where
  "lerp a b t =
     (if 1 / 2 \<le> t then fsub b (fmul (fsub b a) (Fin (1 - t)))
      else fadd a (fmul (fsub b a) (Fin t)))"

definition nanpercentile :: "val list \<Rightarrow> real \<Rightarrow> val" where
  "nanpercentile row q =
     (let vs = sort_val (valid row); n = length vs
      in if n = 0 then NaN
         else let h = q / 100 * real (n - 1);
                  lo = nat \<lfloor>h\<rfloor>;
                  hi = min (lo + 1) (n - 1)
              in lerp (vs ! lo) (vs ! hi) (h - real lo))"

text \<open>\<^verbatim>\<open>np.nanmedian\<close>: the middle valid entry, or the mean of the two middle ones.\<close>

definition nanmedian :: "val list \<Rightarrow> val" where
  "nanmedian row =
     (let vs = sort_val (valid row); n = length vs
      in if n = 0 then NaN
         else if odd n then vs ! (n div 2)
         else fdiv (fadd (vs ! (n div 2 - 1)) (vs ! (n div 2))) (Fin 2))"

section \<open>The sample matrix and the feature class\<close>

text \<open>
  \<open>targetVoxelArray\<close> is a 2-D array: one row per evaluation point. It is kept as its
  list of rows together with the number of columns, since an array of shape \<open>(1, 0)\<close>
  (aggregate mode, empty mask) still has one row.
\<close>

record matrix =
  ncols :: nat
  rows :: "val list list"

definition msize :: "matrix \<Rightarrow> nat" where
  "msize m = length (rows m) * ncols m"

text \<open>
  The image, the mask and the discretized image are 3-D arrays: a shape and the element
  at each coordinate of that shape (what the element function returns outside the shape
  is never read).
\<close>

type_synonym coord = "nat \<times> nat \<times> nat"

type_synonym icoord = "int \<times> int \<times> int"

record 'a ndarray =
  shape :: coord
  elem :: "coord \<Rightarrow> 'a"

text \<open>The fields of \<open>IntensityBasedStat\<close>. \<open>kernelRadius\<close> and \<open>grayLevels\<close> stand for
  \<^verbatim>\<open>settings['kernelRadius']\<close> and \<^verbatim>\<open>coefficients['grayLevels']\<close>, \<open>p_i\<close> for
  \<^verbatim>\<open>coefficients['p_i']\<close>.\<close>

record ibs =
  imageArray :: "val ndarray"
  maskArray :: "bool ndarray"
  discretizedImageArray :: "int ndarray"
  kernelRadius :: nat
  kernelOffsets :: "icoord list"
  grayLevels :: "int list"
  voxelArrayShift :: real
  targetVoxelArray :: matrix
  p_i :: matrix

text \<open>\<open>_moment\<close>: moment 1 is the scalar 0; any other moment is the mean over the valid
  entries of the deviations from the row mean, raised to that power.\<close>

definition moment_row :: "val list \<Rightarrow> nat \<Rightarrow> val" where
  "moment_row row k =
     (let mn = nanmean row;
          s = map (\<lambda>x. fpow (fsub x mn) k) row
      in nanmean s)"

definition moment :: "matrix \<Rightarrow> nat \<Rightarrow> result" where
  "moment a k =
     (if k = 1 then Scalar (Fin 0)
      else Vector (map (\<lambda>row. moment_row row k) (rows a)))"

definition getMeanIntensity :: "ibs \<Rightarrow> val list" where
  "getMeanIntensity s = map nanmean (rows (targetVoxelArray s))"

definition getStandardDeviationIntensity :: "ibs \<Rightarrow> val list" where
  "getStandardDeviationIntensity s = map nanstd (rows (targetVoxelArray s))"

definition getVarianceIntensity :: "ibs \<Rightarrow> val list" where
  "getVarianceIntensity s = map (\<lambda>row. fpow (nanstd row) 2) (rows (targetVoxelArray s))"

text \<open>The two guards of skewness and kurtosis, in the order of the code: first the zeros
  of \<open>m2\<close> become 1, then the higher moment is zeroed where the (already updated) \<open>m2\<close>
  is 0. Item assignment on the scalar of moment 1 would be a TypeError.\<close>

definition flat_guard :: "val list \<Rightarrow> val list" where
  "flat_guard m2 = map (\<lambda>x. if feq x (Fin 0) then Fin 1 else x) m2"

definition zero_where_flat :: "val list \<Rightarrow> val list \<Rightarrow> val list" where
  "zero_where_flat mk m2 = map (\<lambda>(y, x). if feq x (Fin 0) then Fin 0 else y) (zip mk m2)"

definition getIntensitySkewness :: "ibs \<Rightarrow> error + val list" where
  "getIntensitySkewness s =
     (case (moment (targetVoxelArray s) 2, moment (targetVoxelArray s) 3) of
        (Vector m2, Vector m3) \<Rightarrow>
          (let m2' = flat_guard m2;
               m3' = zero_where_flat m3 m2'
           in Inr (map (\<lambda>(y, x). fdiv y (fpow15 x)) (zip m3' m2')))
      | _ \<Rightarrow> Inl TypeError)"

definition getIntensityKurtosis :: "ibs \<Rightarrow> error + val list" where
  "getIntensityKurtosis s =
     (case (moment (targetVoxelArray s) 2, moment (targetVoxelArray s) 4) of
        (Vector m2, Vector m4) \<Rightarrow>
          (let m2' = flat_guard m2;
               m4' = zero_where_flat m4 m2'
           in Inr (map (\<lambda>(y, x). fdiv y (fpow x 2)) (zip m4' m2')))
      | _ \<Rightarrow> Inl TypeError)"

definition getMedianIntensity :: "ibs \<Rightarrow> val list" where
  "getMedianIntensity s = map nanmedian (rows (targetVoxelArray s))"

text \<open>A reduction without identity along axis 1 raises when that axis has length 0,
  whatever the number of rows.\<close>

definition reduce_rows :: "(val list \<Rightarrow> error + val) \<Rightarrow> matrix \<Rightarrow> error + val list" where
  "reduce_rows f a =
     (if ncols a = 0 then Inl ValueError
      else Inr (map (\<lambda>row. case f row of Inr v \<Rightarrow> v | Inl _ \<Rightarrow> NaN) (rows a)))"

definition getMinimumIntensity :: "ibs \<Rightarrow> error + val list" where
  "getMinimumIntensity s = reduce_rows nanmin (targetVoxelArray s)"

definition get10IntensityPercentile :: "ibs \<Rightarrow> val list" where
  "get10IntensityPercentile s = map (\<lambda>row. nanpercentile row 10) (rows (targetVoxelArray s))"

definition get90IntensityPercentile :: "ibs \<Rightarrow> val list" where
  "get90IntensityPercentile s = map (\<lambda>row. nanpercentile row 90) (rows (targetVoxelArray s))"

definition getMaximumIntensity :: "ibs \<Rightarrow> error + val list" where
  "getMaximumIntensity s = reduce_rows nanmax (targetVoxelArray s)"

definition getIntensityInterquartileRange :: "ibs \<Rightarrow> val list" where
  "getIntensityInterquartileRange s =
     map (\<lambda>row. fsub (nanpercentile row 75) (nanpercentile row 25)) (rows (targetVoxelArray s))"

definition getIntensityRange :: "ibs \<Rightarrow> error + val list" where
  "getIntensityRange s =
     (case reduce_rows nanmax (targetVoxelArray s) of
        Inl e \<Rightarrow> Inl e
      | Inr mx \<Rightarrow>
          (case reduce_rows nanmin (targetVoxelArray s) of
             Inl e \<Rightarrow> Inl e
           | Inr mn \<Rightarrow> Inr (map (\<lambda>(a, b). fsub a b) (zip mx mn))))"

definition mad_row :: "val list \<Rightarrow> val" where
  "mad_row row =
     (let u_x = nanmean row
      in nanmean (map (\<lambda>x. fabs (fsub x u_x)) row))"

definition getIntensityMeanAbsoluteDeviation :: "ibs \<Rightarrow> val list" where
  "getIntensityMeanAbsoluteDeviation s = map mad_row (rows (targetVoxelArray s))"

text \<open>Robust mean absolute deviation. \<open>msk\<close> starts as the mask of the valid entries and
  is then overwritten, at the valid positions only, by "below the 10th or above the 90th
  percentile of the row"; the entries under the mask become NaN.\<close>

definition outside_band :: "val \<Rightarrow> val \<Rightarrow> val \<Rightarrow> bool" where
  "outside_band p10 p90 x = (flt (fsub x p10) (Fin 0) \<or> fgt (fsub x p90) (Fin 0))"

definition percentile_mask :: "val \<Rightarrow> val \<Rightarrow> val \<Rightarrow> bool" where
  "percentile_mask p10 p90 x = (if \<not> isnan x then outside_band p10 p90 x else False)"

definition percentileArray_row :: "val \<Rightarrow> val \<Rightarrow> val list \<Rightarrow> val list" where
  "percentileArray_row p10 p90 row =
     map (\<lambda>x. if percentile_mask p10 p90 x then NaN else x) row"

definition rmad_row :: "val \<Rightarrow> val \<Rightarrow> val list \<Rightarrow> val" where
  "rmad_row p10 p90 row =
     (let pa = percentileArray_row p10 p90 row;
          mn = nanmean pa
      in nanmean (map (\<lambda>x. fabs (fsub x mn)) pa))"

definition getIntensityRobustMeanAbsoluteDeviation :: "ibs \<Rightarrow> val list" where
  "getIntensityRobustMeanAbsoluteDeviation s =
     (let prcnt10 = get10IntensityPercentile s;
          prcnt90 = get90IntensityPercentile s
      in map (\<lambda>(row, p10, p90). rmad_row p10 p90 row)
           (zip (rows (targetVoxelArray s)) (zip prcnt10 prcnt90)))"

definition getIntensityMedianAbsoluteDeviation :: "ibs \<Rightarrow> val list" where
  "getIntensityMedianAbsoluteDeviation s =
     (let median_intensity = getMedianIntensity s
      in map (\<lambda>(row, md). nanmedian (map (\<lambda>x. fabs (fsub x md)) row))
           (zip (rows (targetVoxelArray s)) median_intensity))"

definition getIntensityCoefficientOfVariation :: "ibs \<Rightarrow> val list" where
  "getIntensityCoefficientOfVariation s =
     (let mean_intensity = getMeanIntensity s;
          std_intensity = getStandardDeviationIntensity s
      in map (\<lambda>(sd, mn). nan_to_num (fdiv sd mn)) (zip std_intensity mean_intensity))"

definition getIntensityQuartileCoefficientOfDispersion :: "ibs \<Rightarrow> val list" where
  "getIntensityQuartileCoefficientOfDispersion s =
     map (\<lambda>row. let q75 = nanpercentile row 75; q25 = nanpercentile row 25
                in nan_to_num (fdiv (fsub q75 q25) (fadd q75 q25)))
       (rows (targetVoxelArray s))"

definition energy_row :: "real \<Rightarrow> val list \<Rightarrow> val" where
  "energy_row shift row = nansum (map (\<lambda>x. fpow (fadd x (Fin shift)) 2) row)"

definition getIntensityEnergy :: "ibs \<Rightarrow> val list" where
  "getIntensityEnergy s = map (energy_row (voxelArrayShift s)) (rows (targetVoxelArray s))"

text \<open>Root mean square: the integer 0 when the array has no element at all, otherwise
  per row the square root of the energy over the count of valid entries.\<close>

definition rms_row :: "real \<Rightarrow> val list \<Rightarrow> val" where
  "rms_row shift row =
     fsqrt (fdiv (energy_row shift row) (Fin (real (length (valid row)))))"

definition getRootMeanSquareIntensity :: "ibs \<Rightarrow> result" where
  "getRootMeanSquareIntensity s =
     (if msize (targetVoxelArray s) = 0 then Scalar (Fin 0)
      else Vector (map (rms_row (voxelArrayShift s)) (rows (targetVoxelArray s))))"

subsection \<open>Mean, skewness and kurtosis in double precision\<close>

text \<open>
  The same code with every arithmetic result rounded to a double. \<^verbatim>\<open>np.sum\<close> adds the
  entries of a row of fewer than 8 entries from left to right, starting from 0, which is
  the case in the examples below; the powers are taken as correctly rounded.
\<close>

definition nansum_d :: "val list \<Rightarrow> val" where
  "nansum_d row = foldl (\<lambda>acc x. rd (fadd acc x)) (Fin 0) (map nan_to_zero row)"

definition nanmean_d :: "val list \<Rightarrow> val" where
  "nanmean_d row = rd (fdiv (nansum_d row) (Fin (real (length (valid row)))))"

definition moment_row_d :: "val list \<Rightarrow> nat \<Rightarrow> val" where
  "moment_row_d row k =
     (let mn = nanmean_d row;
          s = map (\<lambda>x. rd (fpow (rd (fsub x mn)) k)) row
      in nanmean_d s)"

definition moment_d :: "matrix \<Rightarrow> nat \<Rightarrow> result" where
  "moment_d a k =
     (if k = 1 then Scalar (Fin 0)
      else Vector (map (\<lambda>row. moment_row_d row k) (rows a)))"

definition getMeanIntensity_d :: "ibs \<Rightarrow> val list" where
  "getMeanIntensity_d s = map nanmean_d (rows (targetVoxelArray s))"

definition getIntensitySkewness_d :: "ibs \<Rightarrow> error + val list" where
  "getIntensitySkewness_d s =
     (case (moment_d (targetVoxelArray s) 2, moment_d (targetVoxelArray s) 3) of
        (Vector m2, Vector m3) \<Rightarrow>
          (let m2' = flat_guard m2;
               m3' = zero_where_flat m3 m2'
           in Inr (map (\<lambda>(y, x). rd (fdiv y (rd (fpow15 x)))) (zip m3' m2')))
      | _ \<Rightarrow> Inl TypeError)"

definition getIntensityKurtosis_d :: "ibs \<Rightarrow> error + val list" where
  "getIntensityKurtosis_d s =
     (case (moment_d (targetVoxelArray s) 2, moment_d (targetVoxelArray s) 4) of
        (Vector m2, Vector m4) \<Rightarrow>
          (let m2' = flat_guard m2;
               m4' = zero_where_flat m4 m2'
           in Inr (map (\<lambda>(y, x). rd (fdiv y (rd (fpow x 2)))) (zip m4' m2')))
      | _ \<Rightarrow> Inl TypeError)"

section \<open>Building the sample matrix\<close>

text \<open>The coordinates of a shape in C order (last axis fastest), the order in which
  boolean-mask indexing flattens.\<close>

definition coords :: "coord \<Rightarrow> coord list" where
  "coords sh =
     (case sh of (d0, d1, d2) \<Rightarrow>
        concat (map (\<lambda>i. concat (map (\<lambda>j. map (\<lambda>k. (i, j, k)) [0..<d2]) [0..<d1])) [0..<d0]))"

text \<open>\<^verbatim>\<open>a[mask]\<close>: the elements of \<open>a\<close> where the mask is true, flattened; the shapes
  must agree.\<close>

definition select :: "'a ndarray \<Rightarrow> bool ndarray \<Rightarrow> error + 'a list" where
  "select a m =
     (if shape a \<noteq> shape m then Inl IndexError
      else Inr (map (elem a) (filter (elem m) (coords (shape m)))))"


text \<open>\<^verbatim>\<open>np.pad(a, pad_width=r, mode='constant', constant_values=v)\<close>\<close>

definition pad :: "nat \<Rightarrow> 'a \<Rightarrow> 'a ndarray \<Rightarrow> 'a ndarray" where
  "pad r v a =
     (case shape a of (d0, d1, d2) \<Rightarrow>
        \<lparr>shape = (d0 + 2 * r, d1 + 2 * r, d2 + 2 * r),
         elem = (\<lambda>(i, j, k).
           if r \<le> i \<and> i < r + d0 \<and> r \<le> j \<and> j < r + d1 \<and> r \<le> k \<and> k < r + d2
           then elem a (i - r, j - r, k - r) else v)\<rparr>)"

text \<open>An index into an axis of length \<open>n\<close>: a negative index counts from the end, an
  index outside \<open>[-n, n)\<close> is an IndexError.\<close>

definition axis_index :: "nat \<Rightarrow> int \<Rightarrow> nat option" where
  "axis_index n i =
     (if 0 \<le> i \<and> i < int n then Some (nat i)
      else if - int n \<le> i \<and> i < 0 then Some (nat (i + int n))
      else None)"

definition index3 :: "'a ndarray \<Rightarrow> icoord \<Rightarrow> error + 'a" where
  "index3 a c =
     (case (shape a, c) of ((d0, d1, d2), (i, j, k)) \<Rightarrow>
        (case (axis_index d0 i, axis_index d1 j, axis_index d2 k) of
           (Some i', Some j', Some k') \<Rightarrow> Inr (elem a (i', j', k'))
         | _ \<Rightarrow> Inl IndexError))"

fun collect :: "(error + 'a) list \<Rightarrow> error + 'a list" where
  "collect [] = Inr []"
| "collect (Inl e # _) = Inl e"
| "collect (Inr x # xs) = (case collect xs of Inl e \<Rightarrow> Inl e | Inr ys \<Rightarrow> Inr (x # ys))"

text \<open>\<^verbatim>\<open>a[kernelCoords]\<close>: one row per voxel, one column per kernel offset.\<close>

definition gather :: "'a ndarray \<Rightarrow> icoord list list \<Rightarrow> error + 'a list list" where
  "gather a kc = collect (map (\<lambda>cs. collect (map (index3 a) cs)) kc)"

definition cadd :: "icoord \<Rightarrow> icoord \<Rightarrow> icoord" where
  "cadd a b = (case (a, b) of ((i, j, k), (i', j', k')) \<Rightarrow> (i + i', j + j', k + k'))"


text \<open>\<^verbatim>\<open>np.unique(xs, return_counts=True)[1]\<close>: the number of occurrences of each
  distinct value of \<open>xs\<close>, the values in ascending order.\<close>

definition unique_counts :: "int list \<Rightarrow> nat list" where
  "unique_counts xs = map (count_list xs) (sort (remdups xs))"

text \<open>The coordinates of the kernel around every voxel, shifted by the padding.\<close>

definition kernelCoords :: "ibs \<Rightarrow> icoord list \<Rightarrow> icoord list list" where
  "kernelCoords s voxelCoordinates =
     (let r = int (kernelRadius s)
      in map (\<lambda>v. map (\<lambda>off. cadd off (cadd v (r, r, r))) (kernelOffsets s)) voxelCoordinates)"

text \<open>The occupancy counts before they are normalized: in aggregate mode the counts of
  \<^verbatim>\<open>np.unique\<close> as one row, in local mode per voxel and per gray level the number of
  kernel members discretized to that level.\<close>

definition raw_p_i :: "icoord list option \<Rightarrow> ibs \<Rightarrow> error + nat list list" where
  "raw_p_i voxelCoordinates s =
     (case voxelCoordinates of
        None \<Rightarrow>
          (case select (discretizedImageArray s) (maskArray s) of
             Inl e \<Rightarrow> Inl e
           | Inr ds \<Rightarrow> Inr [unique_counts ds])
      | Some vc \<Rightarrow>
          (case gather (discretizedImageArray s) (kernelCoords s vc) of
             Inl e \<Rightarrow> Inl e
           | Inr ds \<Rightarrow>
               Inr (map (\<lambda>d. map (\<lambda>gl. length (filter (\<lambda>x. x = gl) d)) (grayLevels s)) ds)))"

text \<open>The end of \<open>_initCalculation\<close>: the row sums (sums of whole numbers, which are
  exact), the zero sums replaced by 1, and the division of every row by its sum; what is
  stored is the double nearest to each quotient.\<close>

definition sumBins :: "val list \<Rightarrow> val" where
  "sumBins row = (let sb = fsum row in if feq sb (Fin 0) then Fin 1 else sb)"

definition normalize_row :: "val list \<Rightarrow> val list" where
  "normalize_row row = map (\<lambda>p. rd (fdiv p (sumBins row))) row"

definition counts_row :: "nat list \<Rightarrow> val list" where
  "counts_row cs = map (\<lambda>c. Fin (real c)) cs"

definition target_rows :: "icoord list option \<Rightarrow> ibs \<Rightarrow> error + matrix" where
  "target_rows voxelCoordinates s =
     (case voxelCoordinates of
        None \<Rightarrow>
          (case select (imageArray s) (maskArray s) of
             Inl e \<Rightarrow> Inl e
           | Inr tv \<Rightarrow> Inr \<lparr>ncols = length tv, rows = [tv]\<rparr>)
      | Some vc \<Rightarrow>
          (case gather (imageArray s) (kernelCoords s vc) of
             Inl e \<Rightarrow> Inl e
           | Inr tv \<Rightarrow> Inr \<lparr>ncols = length (kernelOffsets s), rows = tv\<rparr>))"

definition initCalculation :: "icoord list option \<Rightarrow> ibs \<Rightarrow> error + ibs" where
  "initCalculation voxelCoordinates s =
     (case target_rows voxelCoordinates s of
        Inl e \<Rightarrow> Inl e
      | Inr tv \<Rightarrow>
          (case raw_p_i voxelCoordinates s of
             Inl e \<Rightarrow> Inl e
           | Inr cnt \<Rightarrow>
               Inr (s\<lparr>targetVoxelArray := tv,
                      p_i := \<lparr>ncols = (case voxelCoordinates of
                                         None \<Rightarrow> length (hd cnt)
                                       | Some _ \<Rightarrow> length (grayLevels s)),
                              rows = map (\<lambda>cs. normalize_row (counts_row cs)) cnt\<rparr>\<rparr>)))"

section \<open>All statistics behind one interface\<close>

datatype statistic =
    Mean | Variance | Skewness | Kurtosis | Median | Minimum | Percentile10 | Percentile90
  | Maximum | InterquartileRange | Range | MeanAbsoluteDeviation
  | RobustMeanAbsoluteDeviation | MedianAbsoluteDeviation | CoefficientOfVariation
  | QuartileCoefficientOfDispersion | Energy | RootMeanSquare | StandardDeviation

definition vector_of :: "error + val list \<Rightarrow> error + result" where
  "vector_of r = (case r of Inl e \<Rightarrow> Inl e | Inr v \<Rightarrow> Inr (Vector v))"

fun feature :: "statistic \<Rightarrow> ibs \<Rightarrow> error + result" where
  "feature Mean s = Inr (Vector (getMeanIntensity s))"
| "feature Variance s = Inr (Vector (getVarianceIntensity s))"
| "feature Skewness s = vector_of (getIntensitySkewness s)"
| "feature Kurtosis s = vector_of (getIntensityKurtosis s)"
| "feature Median s = Inr (Vector (getMedianIntensity s))"
| "feature Minimum s = vector_of (getMinimumIntensity s)"
| "feature Percentile10 s = Inr (Vector (get10IntensityPercentile s))"
| "feature Percentile90 s = Inr (Vector (get90IntensityPercentile s))"
| "feature Maximum s = vector_of (getMaximumIntensity s)"
| "feature InterquartileRange s = Inr (Vector (getIntensityInterquartileRange s))"
| "feature Range s = vector_of (getIntensityRange s)"
| "feature MeanAbsoluteDeviation s = Inr (Vector (getIntensityMeanAbsoluteDeviation s))"
| "feature RobustMeanAbsoluteDeviation s =
     Inr (Vector (getIntensityRobustMeanAbsoluteDeviation s))"
| "feature MedianAbsoluteDeviation s = Inr (Vector (getIntensityMedianAbsoluteDeviation s))"
| "feature CoefficientOfVariation s = Inr (Vector (getIntensityCoefficientOfVariation s))"
| "feature QuartileCoefficientOfDispersion s =
     Inr (Vector (getIntensityQuartileCoefficientOfDispersion s))"
| "feature Energy s = Inr (Vector (getIntensityEnergy s))"
| "feature RootMeanSquare s = Inr (getRootMeanSquareIntensity s)"
| "feature StandardDeviation s = Inr (Vector (getStandardDeviationIntensity s))"

text \<open>The value of a result for evaluation point \<open>i\<close>: the entry \<open>i\<close> of a vector, the
  scalar itself when the result is one scalar for the whole matrix.\<close>

definition at_point :: "error + result \<Rightarrow> nat \<Rightarrow> error + val" where
  "at_point r i =
     (case r of
        Inl e \<Rightarrow> Inl e
      | Inr (Scalar x) \<Rightarrow> Inr x
      | Inr (Vector v) \<Rightarrow> (if i < length v then Inr (v ! i) else Inl IndexError))"

section \<open>Auxiliary notions for the statements\<close>

text \<open>The finite entries of a row, as real numbers, and rows that hold only finite
  numbers and NaN (what an image of real-valued intensities gives after masking).\<close>

fun fins :: "val list \<Rightarrow> real list" where
  "fins [] = []"
| "fins (Fin r # xs) = r # fins xs"
| "fins (_ # xs) = fins xs"

definition finrow :: "val list \<Rightarrow> bool" where
  "finrow row = list_all (\<lambda>x. isnan x \<or> is_fin x) row"

text \<open>A state that holds a given sample matrix and shift, with empty volumes.\<close>

definition empty_array :: "'a \<Rightarrow> 'a ndarray" where
  "empty_array v = \<lparr>shape = (0, 0, 0), elem = (\<lambda>_. v)\<rparr>"

definition sample_state :: "real \<Rightarrow> nat \<Rightarrow> val list list \<Rightarrow> ibs" where
  "sample_state shift n rs =
     \<lparr>imageArray = empty_array NaN, maskArray = empty_array False,
      discretizedImageArray = empty_array 0, kernelRadius = 1, kernelOffsets = [],
      grayLevels = [], voxelArrayShift = shift,
      targetVoxelArray = \<lparr>ncols = n, rows = rs\<rparr>,
      p_i = \<lparr>ncols = 0, rows = []\<rparr>\<rparr>"

text \<open>The scenario of the specification: one row \<open>[1, 2, 3, 4, 5, 100]\<close>, shift 0.\<close>

definition scenario :: ibs where
  "scenario = sample_state 0 6 [[Fin 1, Fin 2, Fin 3, Fin 4, Fin 5, Fin 100]]"

text \<open>The same statistics on lists of real numbers, in which the results for rows of
  finite numbers and NaN are expressed: the mean, the percentile by linear interpolation
  and the median of a sorted list, the mean absolute deviation and the central moments.\<close>

definition mean :: "real list \<Rightarrow> real" where
  "mean xs = sum_list xs / real (length xs)"

definition pct :: "real list \<Rightarrow> real \<Rightarrow> real" where
  "pct ys q =
     (let n = length ys; h = q / 100 * real (n - 1); lo = nat \<lfloor>h\<rfloor>; hi = min (lo + 1) (n - 1)
      in ys ! lo + (ys ! hi - ys ! lo) * (h - real lo))"

definition med :: "real list \<Rightarrow> real" where
  "med ys = (let n = length ys in
     if odd n then ys ! (n div 2) else (ys ! (n div 2 - 1) + ys ! (n div 2)) / 2)"


definition central_moment :: "real list \<Rightarrow> nat \<Rightarrow> real" where
  "central_moment xs k = mean (map (\<lambda>x. (x - mean xs) ^ k) xs)"

text \<open>A row whose valid entries all equal \<open>c\<close>.\<close>

definition const_row :: "real \<Rightarrow> val list \<Rightarrow> bool" where
  "const_row c row = list_all (\<lambda>x. x = NaN \<or> x = Fin c) row"



text \<open>Two sample rows: one with a low outlier below a large cluster, one with two
  distinct values.\<close>

definition skewed :: ibs where
  "skewed = sample_state 0 11
     [[Fin (- 1), Fin 0, Fin 0, Fin 0, Fin 0, Fin 0, Fin 0, Fin 0, Fin 0, Fin 100, Fin 100]]"


text \<open>A small volume for the examples: eight voxels in a line, three of them in the
  mask, with the discretized image (gray level 0 marks a voxel outside every level), and
  the states that the two modes of \<open>_initCalculation\<close> produce from it. In local mode the
  discretized image is the binning of the padded image, so it is padded as well.\<close>

definition line :: "'a list \<Rightarrow> 'a \<Rightarrow> 'a ndarray" where
  "line xs d = \<lparr>shape = (1, 1, length xs), elem = (\<lambda>(i, j, k). if k < length xs then xs ! k else d)\<rparr>"

definition example :: ibs where
  "example =
     \<lparr>imageArray = line [Fin 10, Fin 20, Fin 30, Fin 40, Fin 50, Fin 60, Fin 70, Fin 80] NaN,
      maskArray = line [True, False, True, True, False, False, False, False] False,
      discretizedImageArray = line [1, 0, 3, 1, 0, 0, 0, 0] 0,
      kernelRadius = 3, kernelOffsets = [], grayLevels = [1, 2, 3], voxelArrayShift = 0,
      targetVoxelArray = \<lparr>ncols = 0, rows = []\<rparr>,
      p_i = \<lparr>ncols = 0, rows = []\<rparr>\<rparr>"


definition example_angles2 :: "icoord list" where
  "example_angles2 = [(0, 0, - 2), (0, 0, - 1), (0, 0, 1), (0, 0, 2)]"

definition example_aggregate :: ibs where
  "example_aggregate =
     example\<lparr>targetVoxelArray := \<lparr>ncols = 3, rows = [[Fin 10, Fin 30, Fin 40]]\<rparr>,
             p_i := \<lparr>ncols = 2, rows = [normalize_row (counts_row [2, 1])]\<rparr>\<rparr>"

text \<open>The image with NaN at the voxels outside the mask, as \<open>_initVoxelBasedCalculation\<close>
  makes it before padding.\<close>

definition masked_image :: "ibs \<Rightarrow> val ndarray" where
  "masked_image s =
     (imageArray s)\<lparr>elem := (\<lambda>c. if elem (maskArray s) c then elem (imageArray s) c else NaN)\<rparr>"

definition example_voxel :: "nat \<Rightarrow> icoord list \<Rightarrow> ibs" where
  "example_voxel r angles =
     example\<lparr>kernelRadius := r,
             kernelOffsets := angles @ [(0, 0, 0)],
             imageArray := pad r NaN (masked_image example),
             maskArray := pad r False (maskArray example),
             discretizedImageArray := pad r 0 (discretizedImageArray example)\<rparr>"

definition example_local :: ibs where
  "example_local =
     (example_voxel 2 example_angles2)
       \<lparr>targetVoxelArray := \<lparr>ncols = 5, rows = [[NaN, NaN, NaN, Fin 30, Fin 10], [NaN, NaN, NaN, NaN, NaN]]\<rparr>,
        p_i := \<lparr>ncols = 3, rows = [normalize_row (counts_row [1, 0, 1]),
                                    normalize_row (counts_row [0, 0, 0])]\<rparr>\<rparr>"










text \<open>A flat row: three entries equal to the double nearest to 0.1.\<close>

definition flat_tenths :: ibs where
  "flat_tenths = sample_state 0 3
     [[Fin (3602879701896397 / 2 ^ 55), Fin (3602879701896397 / 2 ^ 55),
       Fin (3602879701896397 / 2 ^ 55)]]"

text \<open>Six voxels, all in the mask, each discretized to a gray level of its own, and the
  state that aggregate mode produces from them.\<close>

definition six_levels :: ibs where
  "six_levels =
     \<lparr>imageArray = line [Fin 1, Fin 2, Fin 3, Fin 4, Fin 5, Fin 6] NaN,
      maskArray = line [True, True, True, True, True, True] False,
      discretizedImageArray = line [1, 2, 3, 4, 5, 6] 0,
      kernelRadius = 2, kernelOffsets = [], grayLevels = [1, 2, 3, 4, 5, 6],
      voxelArrayShift = 0,
      targetVoxelArray = \<lparr>ncols = 0, rows = []\<rparr>,
      p_i = \<lparr>ncols = 0, rows = []\<rparr>\<rparr>"

definition six_aggregate :: ibs where
  "six_aggregate =
     six_levels\<lparr>targetVoxelArray :=
                  \<lparr>ncols = 6, rows = [[Fin 1, Fin 2, Fin 3, Fin 4, Fin 5, Fin 6]]\<rparr>,
                p_i := \<lparr>ncols = 6,
                        rows = [replicate 6 (Fin (6004799503160661 / 2 ^ 55))]\<rparr>\<rparr>"

text \<open>Four voxels whose discretized values are the gray levels 1, 2 and 3; the only voxel
  of level 2 is outside the mask.\<close>

definition banded :: ibs where
  "banded =
     \<lparr>imageArray = line [Fin 10, Fin 20, Fin 30, Fin 40] NaN,
      maskArray = line [True, False, True, True] False,
      discretizedImageArray = line [1, 2, 3, 1] 0,
      kernelRadius = 2, kernelOffsets = [], grayLevels = [1, 2, 3],
      voxelArrayShift = 0,
      targetVoxelArray = \<lparr>ncols = 0, rows = []\<rparr>,
      p_i = \<lparr>ncols = 0, rows = []\<rparr>\<rparr>"

definition banded_aggregate :: ibs where
  "banded_aggregate =
     banded\<lparr>targetVoxelArray := \<lparr>ncols = 3, rows = [[Fin 10, Fin 30, Fin 40]]\<rparr>,
            p_i := \<lparr>ncols = 2, rows = [normalize_row (counts_row [2, 1])]\<rparr>\<rparr>"

text \<open>Three voxels in the mask that hold the doubles nearest to 0.1, -0.3 and 0.2, with a
  kernel of radius 2 whose offsets lead to the two neighbours; the states of aggregate
  mode and of local mode at the middle voxel.\<close>

definition three_voxels :: ibs where
  "three_voxels =
     \<lparr>imageArray = line [Fin (3602879701896397 / 2 ^ 55), Fin (- (5404319552844595 / 2 ^ 54)),
                          Fin (3602879701896397 / 2 ^ 54)] NaN,
      maskArray = line [True, True, True] False,
      discretizedImageArray = line [1, 1, 1] 0,
      kernelRadius = 2, kernelOffsets = [], grayLevels = [1],
      voxelArrayShift = 0,
      targetVoxelArray = \<lparr>ncols = 0, rows = []\<rparr>,
      p_i = \<lparr>ncols = 0, rows = []\<rparr>\<rparr>"

definition three_angles :: "icoord list" where
  "three_angles = [(0, 0, - 1), (0, 0, 1)]"


definition three_padded :: ibs where
  "three_padded =
     three_voxels\<lparr>kernelOffsets := three_angles @ [(0, 0, 0)],
                  imageArray := pad 2 NaN (masked_image three_voxels),
                  maskArray := pad 2 False (maskArray three_voxels),
                  discretizedImageArray := pad 2 0 (discretizedImageArray three_voxels)\<rparr>"



text \<open>Volumes whose sample has no valid entry, each with the state that \<open>_initCalculation\<close>
  produces from it: one masked voxel whose intensity is NaN; the example volume in local
  mode at the voxel \<open>(0, 0, 7)\<close>, whose kernel of radius 2 reaches no masked voxel; two
  voxels with an empty mask.\<close>

definition nan_voxel :: ibs where
  "nan_voxel =
     \<lparr>imageArray = line [NaN] NaN,
      maskArray = line [True] False,
      discretizedImageArray = line [1] 0,
      kernelRadius = 2, kernelOffsets = [], grayLevels = [1], voxelArrayShift = 0,
      targetVoxelArray = \<lparr>ncols = 0, rows = []\<rparr>,
      p_i = \<lparr>ncols = 0, rows = []\<rparr>\<rparr>"

definition nan_voxel_aggregate :: ibs where
  "nan_voxel_aggregate =
     nan_voxel\<lparr>targetVoxelArray := \<lparr>ncols = 1, rows = [[NaN]]\<rparr>,
               p_i := \<lparr>ncols = 1, rows = [normalize_row (counts_row [1])]\<rparr>\<rparr>"

definition example_far :: ibs where
  "example_far =
     (example_voxel 2 example_angles2)
       \<lparr>targetVoxelArray := \<lparr>ncols = 5, rows = [[NaN, NaN, NaN, NaN, NaN]]\<rparr>,
        p_i := \<lparr>ncols = 3, rows = [normalize_row (counts_row [0, 0, 0])]\<rparr>\<rparr>"

definition unmasked :: ibs where
  "unmasked =
     \<lparr>imageArray = line [Fin 10, Fin 20] NaN,
      maskArray = line [False, False] False,
      discretizedImageArray = line [1, 2] 0,
      kernelRadius = 2, kernelOffsets = [], grayLevels = [1, 2], voxelArrayShift = 0,
      targetVoxelArray = \<lparr>ncols = 0, rows = []\<rparr>,
      p_i = \<lparr>ncols = 0, rows = []\<rparr>\<rparr>"

definition unmasked_aggregate :: ibs where
  "unmasked_aggregate =
     unmasked\<lparr>targetVoxelArray := \<lparr>ncols = 0, rows = [[]]\<rparr>,
              p_i := \<lparr>ncols = 0, rows = [[]]\<rparr>\<rparr>"

section \<open>Rows without valid entries\<close>

lemma valid_empty_iff: "valid row = [] \<longleftrightarrow> (\<forall>x\<in>set row. x = NaN)"
  by (auto simp: valid_def isnan_def filter_empty_conv)

lemma fsum_zeros: "(\<forall>x\<in>set xs. x = Fin 0) \<Longrightarrow> fsum xs = Fin 0"
  by (induction xs) (auto simp: fsum_def)

lemma nansum_no_valid: "valid row = [] \<Longrightarrow> nansum row = Fin 0"
  unfolding nansum_def
  by (rule fsum_zeros) (auto simp: valid_empty_iff nan_to_zero_def isnan_def)

lemma energy_row_no_valid: "valid row = [] \<Longrightarrow> energy_row shift row = Fin 0"
  unfolding energy_row_def nansum_def
  by (rule fsum_zeros) (auto simp: valid_empty_iff nan_to_zero_def isnan_def)

lemma nanmean_no_valid: "valid row = [] \<Longrightarrow> nanmean row = NaN"
  by (simp add: nanmean_def nansum_no_valid inf_of_sign_def)

lemma nanmedian_no_valid: "valid row = [] \<Longrightarrow> nanmedian row = NaN"
  by (simp add: nanmedian_def sort_val_def)

text \<open>
  Claim C10. For every row of the sample matrix that has no valid entry, Energy is
  exactly 0, whatever the shift: the sum of the squared shifted values skips every
  NaN, and the empty sum is 0. The result is a vector with one value per row; no error
  can be returned.
\<close>

theorem energy_of_row_without_valid_entries:
  "i < length (rows (targetVoxelArray s)) \<Longrightarrow> valid (rows (targetVoxelArray s) ! i) = [] \<Longrightarrow>
   length (getIntensityEnergy s) = length (rows (targetVoxelArray s)) \<and>
   getIntensityEnergy s ! i = Fin 0"
  by (simp add: getIntensityEnergy_def energy_row_no_valid)

theorem energy_of_row_without_valid_entries_witness:
  "(1::nat) < length (rows (targetVoxelArray (sample_state 3 2 [[Fin 1, NaN], [NaN, NaN]]))) \<and>
   valid (rows (targetVoxelArray (sample_state 3 2 [[Fin 1, NaN], [NaN, NaN]])) ! 1) = [] \<and>
   getIntensityEnergy (sample_state 3 2 [[Fin 1, NaN], [NaN, NaN]]) ! 1 = Fin 0"
  using energy_of_row_without_valid_entries [of 1 "sample_state 3 2 [[Fin 1, NaN], [NaN, NaN]]"]
  by (simp add: sample_state_def valid_def isnan_def)

lemma nan_voxel_target: "target_rows None nan_voxel = Inr \<lparr>ncols = 1, rows = [[NaN]]\<rparr>"
  by code_simp

lemma nan_voxel_raw: "raw_p_i None nan_voxel = Inr [[1]]"
  by code_simp

lemma nan_voxel_init: "initCalculation None nan_voxel = Inr nan_voxel_aggregate"
  by (simp add: initCalculation_def nan_voxel_target nan_voxel_raw nan_voxel_aggregate_def)

lemma example_far_target:
  "target_rows (Some [(0, 0, 7)]) (example_voxel 2 example_angles2) =
   Inr \<lparr>ncols = 5, rows = [[NaN, NaN, NaN, NaN, NaN]]\<rparr>"
  by code_simp

lemma example_far_raw:
  "raw_p_i (Some [(0, 0, 7)]) (example_voxel 2 example_angles2) = Inr [[0, 0, 0]]"
  by code_simp

lemma example_far_init:
  "initCalculation (Some [(0, 0, 7)]) (example_voxel 2 example_angles2) = Inr example_far"
  by (simp add: initCalculation_def example_far_target example_far_raw example_far_def)
     (simp add: example_voxel_def example_def)

lemma unmasked_target: "target_rows None unmasked = Inr \<lparr>ncols = 0, rows = [[]]\<rparr>"
  by code_simp

lemma unmasked_raw: "raw_p_i None unmasked = Inr [[]]"
  by code_simp

lemma unmasked_init: "initCalculation None unmasked = Inr unmasked_aggregate"
  by (simp add: initCalculation_def unmasked_target unmasked_raw unmasked_aggregate_def
      normalize_row_def counts_row_def)

lemma rms_single_nan: "getRootMeanSquareIntensity nan_voxel_aggregate = Vector [NaN]"
  by (simp add: nan_voxel_aggregate_def getRootMeanSquareIntensity_def msize_def
      rms_row_def energy_row_def nansum_def nan_to_zero_def fsum_def inf_of_sign_def
      valid_def isnan_def)

lemma rms_far: "getRootMeanSquareIntensity example_far = Vector [NaN]"
  by (simp add: example_far_def getRootMeanSquareIntensity_def msize_def
      rms_row_def energy_row_def nansum_def nan_to_zero_def fsum_def inf_of_sign_def
      valid_def isnan_def)

lemma unmasked_statistics:
  "getMinimumIntensity unmasked_aggregate = Inl ValueError"
  "getMaximumIntensity unmasked_aggregate = Inl ValueError"
  "getMeanIntensity unmasked_aggregate = [NaN]"
  "getMedianIntensity unmasked_aggregate = [NaN]"
  "getIntensityEnergy unmasked_aggregate = [Fin 0]"
  "getRootMeanSquareIntensity unmasked_aggregate = Scalar (Fin 0)"
  by (simp_all add: unmasked_aggregate_def getMinimumIntensity_def getMaximumIntensity_def
      reduce_rows_def getMeanIntensity_def getMedianIntensity_def getIntensityEnergy_def
      getRootMeanSquareIntensity_def msize_def nanmean_no_valid nanmedian_no_valid
      energy_row_no_valid valid_def)

text \<open>
  Claim C4, evaluated on samples without valid entries. The claim wants Root Mean Square
  to be exactly 0 when the sample matrix has no valid entry, and Minimum and Maximum to
  return without error on a row without valid entries. The comment above the guard of
  \<open>getRootMeanSquareIntensity\<close> announces the first
  (\<^verbatim>\<open>If no voxels are segmented, prevent division by 0 and return 0\<close>), but the guard
  tests the size of the array while the divisor is the number of valid entries: for the
  one-row sample \<open>[NaN]\<close> of aggregate mode, and for the all-NaN row of local mode at a
  voxel that the mask does not reach, the array is not empty and the result is the
  quotient \<open>0 / 0\<close>, NaN. With an empty mask the sample has the shape \<open>(1, 0)\<close>: Mean,
  Median, Energy and Root Mean Square return on it, Minimum and Maximum raise ValueError.
\<close>

theorem rows_without_valid_entries_evaluated:
  "initCalculation None nan_voxel = Inr nan_voxel_aggregate \<and>
   rows (targetVoxelArray nan_voxel_aggregate) = [[NaN]] \<and>
   valid (rows (targetVoxelArray nan_voxel_aggregate) ! 0) = [] \<and>
   msize (targetVoxelArray nan_voxel_aggregate) = 1 \<and>
   getRootMeanSquareIntensity nan_voxel_aggregate = Vector [NaN] \<and>
   initCalculation (Some [(0, 0, 7)]) (example_voxel 2 example_angles2) = Inr example_far \<and>
   rows (targetVoxelArray example_far) = [[NaN, NaN, NaN, NaN, NaN]] \<and>
   getRootMeanSquareIntensity example_far = Vector [NaN] \<and>
   initCalculation None unmasked = Inr unmasked_aggregate \<and>
   targetVoxelArray unmasked_aggregate = \<lparr>ncols = 0, rows = [[]]\<rparr> \<and>
   getMinimumIntensity unmasked_aggregate = Inl ValueError \<and>
   getMaximumIntensity unmasked_aggregate = Inl ValueError \<and>
   getMeanIntensity unmasked_aggregate = [NaN] \<and>
   getMedianIntensity unmasked_aggregate = [NaN] \<and>
   getIntensityEnergy unmasked_aggregate = [Fin 0] \<and>
   getRootMeanSquareIntensity unmasked_aggregate = Scalar (Fin 0)"
proof -
  have a: "rows (targetVoxelArray nan_voxel_aggregate) = [[NaN]] \<and>
           valid (rows (targetVoxelArray nan_voxel_aggregate) ! 0) = [] \<and>
           msize (targetVoxelArray nan_voxel_aggregate) = 1"
    by (simp add: nan_voxel_aggregate_def valid_def isnan_def msize_def)
  have b: "rows (targetVoxelArray example_far) = [[NaN, NaN, NaN, NaN, NaN]]"
    by (simp add: example_far_def)
  have c: "targetVoxelArray unmasked_aggregate = \<lparr>ncols = 0, rows = [[]]\<rparr>"
    by (simp add: unmasked_aggregate_def)
  show ?thesis
    using nan_voxel_init a rms_single_nan example_far_init b rms_far unmasked_init c
      unmasked_statistics by blast
qed

section \<open>Evaluation on concrete rows\<close>

lemmas row_defs_eval =
  valid_def isnan_def nansum_def nan_to_zero_def fsum_def nanmean_def nanvar_def nanstd_def
  fsub_def fmin_def fmax_def sort_val_def fle_def fgt_def lerp_def nanpercentile_def nanmedian_def
  energy_row_def rms_row_def mad_row_def moment_row_def inf_of_sign_def

lemmas getter_defs =
  getMeanIntensity_def getVarianceIntensity_def getIntensitySkewness_def getIntensityKurtosis_def
  getMedianIntensity_def getMinimumIntensity_def get10IntensityPercentile_def
  get90IntensityPercentile_def getMaximumIntensity_def getIntensityInterquartileRange_def
  getIntensityRange_def getIntensityMeanAbsoluteDeviation_def
  getIntensityRobustMeanAbsoluteDeviation_def getIntensityMedianAbsoluteDeviation_def
  getIntensityCoefficientOfVariation_def getIntensityQuartileCoefficientOfDispersion_def
  getIntensityEnergy_def getRootMeanSquareIntensity_def getStandardDeviationIntensity_def

lemma scenario_mean: "getMeanIntensity scenario = [Fin (115 / 6)]"
  by (simp add: scenario_def sample_state_def getter_defs row_defs_eval)

lemma scenario_median: "getMedianIntensity scenario = [Fin (7 / 2)]"
  by (simp add: scenario_def sample_state_def getter_defs row_defs_eval)

lemma scenario_min: "getMinimumIntensity scenario = Inr [Fin 1]"
  by (simp add: scenario_def sample_state_def getter_defs row_defs_eval reduce_rows_def)

lemma scenario_max: "getMaximumIntensity scenario = Inr [Fin 100]"
  by (simp add: scenario_def sample_state_def getter_defs row_defs_eval reduce_rows_def)

lemma scenario_range: "getIntensityRange scenario = Inr [Fin 99]"
  by (simp add: scenario_def sample_state_def getter_defs row_defs_eval reduce_rows_def)

lemma scenario_variance: "getVarianceIntensity scenario = [Fin (47105 / 36)]"
  by (simp add: scenario_def sample_state_def getter_defs row_defs_eval power2_eq_square)

lemma scenario_energy: "getIntensityEnergy scenario = [Fin 10055]"
  by (simp add: scenario_def sample_state_def getter_defs row_defs_eval)

lemma scenario_rms: "getRootMeanSquareIntensity scenario = Vector [Fin (sqrt (10055 / 6))]"
  by (simp add: scenario_def sample_state_def getter_defs row_defs_eval msize_def)

lemma rms_bounds:
  "4093 / 100 < sqrt (10055 / 6 :: real) \<and> sqrt (10055 / 6 :: real) < 4094 / 100"
proof -
  have "(4093 / 100 :: real) = sqrt ((4093 / 100)^2)" by simp
  also have "\<dots> < sqrt (10055 / 6)"
    by (subst real_sqrt_less_iff) (simp add: power2_eq_square)
  finally have lower: "4093 / 100 < sqrt (10055 / 6 :: real)" .
  have "sqrt (10055 / 6 :: real) < sqrt ((4094 / 100)^2)"
    by (subst real_sqrt_less_iff) (simp add: power2_eq_square)
  also have "\<dots> = 4094 / 100" by simp
  finally show ?thesis using lower by simp
qed

text \<open>
  Claim C2, as stated, fails on the variance. For the row \<open>[1, 2, 3, 4, 5, 100]\<close> the
  code returns the population variance \<open>47105 / 36 = 1308.47...\<close>, which is more than 36
  away from the claimed 1344.97; and the root mean square \<open>sqrt (10055 / 6)\<close> lies
  below 40.94, so it does not round to 40.95.
\<close>

theorem scenario_counterexample:
  "getVarianceIntensity scenario = [Fin (47105 / 36)] \<and>
   (36 :: real) < \<bar>1344.97 - 47105 / 36\<bar> \<and>
   getRootMeanSquareIntensity scenario = Vector [Fin (sqrt (10055 / 6))] \<and>
   sqrt (10055 / 6 :: real) < 40.94"
  using scenario_variance scenario_rms rms_bounds by simp

text \<open>
  Claim C2, amended. For the row \<open>[1, 2, 3, 4, 5, 100]\<close> with shift 0 the code returns
  Mean \<open>115 / 6\<close>, Median 3.5, Minimum 1, Maximum 100, Range 99, Energy 10055, the
  population variance \<open>47105 / 36\<close> (the squared deviations from the mean sum to
  \<open>47105 / 6\<close> and are divided by 6, the count of valid entries; this is between 1308.47
  and 1308.48), and Root Mean Square \<open>sqrt (10055 / 6)\<close>, which is between 40.93 and
  40.94.
\<close>

theorem scenario_values:
  "getMeanIntensity scenario = [Fin (115 / 6)] \<and>
   getMedianIntensity scenario = [Fin 3.5] \<and>
   getMinimumIntensity scenario = Inr [Fin 1] \<and>
   getMaximumIntensity scenario = Inr [Fin 100] \<and>
   getIntensityRange scenario = Inr [Fin 99] \<and>
   getVarianceIntensity scenario = [Fin (47105 / 6 / 6)] \<and>
   (1308.47 :: real) < 47105 / 6 / 6 \<and> (47105 / 6 / 6 :: real) < 1308.48 \<and>
   getIntensityEnergy scenario = [Fin 10055] \<and>
   getRootMeanSquareIntensity scenario = Vector [Fin (sqrt (10055 / 6))] \<and>
   40.93 < sqrt (10055 / 6 :: real) \<and> sqrt (10055 / 6 :: real) < 40.94"
  using scenario_mean scenario_median scenario_min scenario_max scenario_range
    scenario_variance scenario_energy scenario_rms rms_bounds
  by simp

section \<open>Independence of the rows\<close>

text \<open>
  Claim C9. For every statistic, the value for evaluation point \<open>i\<close> depends only on row
  \<open>i\<close> of the sample matrix (and on the shift): two matrices with the same number of
  columns that agree on row \<open>i\<close> give the same value, or the same error, at \<open>i\<close>. In
  particular the other rows, valid or not, have no influence.
\<close>

theorem row_independence:
  assumes "ncols (targetVoxelArray s) = ncols (targetVoxelArray s')"
    and "voxelArrayShift s = voxelArrayShift s'"
    and "i < length (rows (targetVoxelArray s))"
    and "i < length (rows (targetVoxelArray s'))"
    and "rows (targetVoxelArray s) ! i = rows (targetVoxelArray s') ! i"
  shows "at_point (feature st s) i = at_point (feature st s') i"
  using assms
  by (cases st)
     (auto simp: getter_defs at_point_def vector_of_def moment_def flat_guard_def
       zero_where_flat_def reduce_rows_def msize_def Let_def)

theorem row_independence_witness:
  "at_point (feature RobustMeanAbsoluteDeviation
       (sample_state 2 2 [[NaN, NaN], [Fin 1, Fin 3]])) 1 =
   at_point (feature RobustMeanAbsoluteDeviation
       (sample_state 2 2 [[Fin 5, Fin 8], [Fin 1, Fin 3], [Fin 4, NaN]])) 1 \<and>
   at_point (feature RootMeanSquare (sample_state 2 2 [[NaN, NaN], [Fin 1, Fin 3]])) 1 =
   at_point (feature RootMeanSquare
       (sample_state 2 2 [[Fin 5, Fin 8], [Fin 1, Fin 3], [Fin 4, NaN]])) 1"
  using row_independence [of "sample_state 2 2 [[NaN, NaN], [Fin 1, Fin 3]]"
      "sample_state 2 2 [[Fin 5, Fin 8], [Fin 1, Fin 3], [Fin 4, NaN]]" 1
      RobustMeanAbsoluteDeviation]
    row_independence [of "sample_state 2 2 [[NaN, NaN], [Fin 1, Fin 3]]"
      "sample_state 2 2 [[Fin 5, Fin 8], [Fin 1, Fin 3], [Fin 4, NaN]]" 1 RootMeanSquare]
  by (simp add: sample_state_def)

section \<open>Rows of finite numbers and NaN\<close>

lemma finrow_Cons: "finrow (x # xs) \<longleftrightarrow> (x = NaN \<or> (\<exists>r. x = Fin r)) \<and> finrow xs"
  by (cases x) (auto simp: finrow_def isnan_def)

lemma finrow_Nil: "finrow []"
  by (simp add: finrow_def)

lemma finrow_induct [consumes 1, case_names Nil Nan Fin]:
  assumes "finrow row" "P []" "\<And>xs. finrow xs \<Longrightarrow> P xs \<Longrightarrow> P (NaN # xs)"
    "\<And>r xs. finrow xs \<Longrightarrow> P xs \<Longrightarrow> P (Fin r # xs)"
  shows "P row"
  using assms(1)
proof (induction row)
  case Nil show ?case by (rule assms(2))
next
  case (Cons x xs)
  then show ?case using assms(3,4) by (auto simp: finrow_Cons)
qed

lemma valid_finrow: "finrow row \<Longrightarrow> valid row = map Fin (fins row)"
  by (induction rule: finrow_induct) (auto simp: valid_def isnan_def)

lemma length_valid_finrow: "finrow row \<Longrightarrow> length (valid row) = length (fins row)"
  by (simp add: valid_finrow)

lemma nansum_finrow: "finrow row \<Longrightarrow> nansum row = Fin (sum_list (fins row))"
  by (induction rule: finrow_induct) (auto simp: nansum_def fsum_def nan_to_zero_def isnan_def)

lemma fsum_Fin: "fsum (map Fin xs) = Fin (sum_list xs)"
  by (induction xs) (auto simp: fsum_def)

lemma nanmean_finrow:
  "finrow row \<Longrightarrow> nanmean row = (if fins row = [] then NaN else Fin (mean (fins row)))"
  by (simp add: nanmean_def nansum_finrow length_valid_finrow mean_def inf_of_sign_def)

lemma fins_empty_iff: "finrow row \<Longrightarrow> fins row = [] \<longleftrightarrow> (\<forall>x\<in>set row. x = NaN)"
  by (induction rule: finrow_induct) auto

lemma finrow_map:
  assumes "finrow row" "g NaN = NaN" "\<And>r. g (Fin r) = Fin (f r)"
  shows "finrow (map g row)" "fins (map g row) = map f (fins row)"
  using assms(1) by (induction rule: finrow_induct) (auto simp: assms(2,3) finrow_Cons finrow_Nil)

lemma all_nan_finrow: "\<forall>x\<in>set row. x = NaN \<Longrightarrow> finrow row"
  by (induction row) (auto simp: finrow_Cons finrow_Nil)

lemma fins_all_nan: "\<forall>x\<in>set row. x = NaN \<Longrightarrow> fins row = []"
  by (induction row) auto

lemma insort_val_Fin: "insort_val (Fin x) (map Fin ys) = map Fin (insort x ys)"
  by (induction ys) (auto simp: fle_def)

lemma sort_val_Fin: "sort_val (map Fin xs) = map Fin (sort xs)"
proof (induction xs)
  case Nil show ?case by (simp add: sort_val_def)
next
  case (Cons x xs)
  have "sort_val (map Fin (x # xs)) = insort_val (Fin x) (sort_val (map Fin xs))"
    by (simp add: sort_val_def)
  also have "\<dots> = map Fin (insort x (sort xs))" by (simp add: Cons insort_val_Fin)
  also have "insort x (sort xs) = sort (x # xs)" by (simp add: sort_key_def)
  finally show ?case .
qed

lemma sort_not_Nil: "xs \<noteq> [] \<Longrightarrow> sort xs \<noteq> []"
  using length_sort[of "\<lambda>x. x" xs] by fastforce

lemma pct_index_bounds:
  assumes "0 \<le> q" "q \<le> 100" "0 < n"
  shows "nat \<lfloor>q / 100 * real (n - 1)\<rfloor> < n"
proof -
  have "q / 100 * real (n - 1) \<le> 1 * real (n - 1)"
    using assms by (intro mult_right_mono) auto
  then have "\<lfloor>q / 100 * real (n - 1)\<rfloor> \<le> int (n - 1)" by (simp add: floor_le_iff) 
  then show ?thesis using assms by linarith
qed

lemma nanpercentile_finrow:
  assumes "finrow row" "0 \<le> q" "q \<le> 100"
  shows "nanpercentile row q = (if fins row = [] then NaN else Fin (pct (sort (fins row)) q))"
proof (cases "fins row = []")
  case True
  then show ?thesis using assms by (simp add: nanpercentile_def valid_finrow sort_val_def)
next
  case False
  let ?ys = "sort (fins row)"
  let ?n = "length ?ys"
  have n: "0 < ?n" using False by simp
  have lo: "nat \<lfloor>q / 100 * real (?n - 1)\<rfloor> < ?n" using pct_index_bounds[OF assms(2,3) n] .
  have hi: "min (nat \<lfloor>q / 100 * real (?n - 1)\<rfloor> + 1) (?n - 1) < ?n" using n by (simp add: min_less_iff_disj)
  show ?thesis using False lo hi sort_not_Nil[OF False]
    by (simp add: nanpercentile_def valid_finrow[OF assms(1)] sort_val_Fin pct_def Let_def
        lerp_def fsub_def algebra_simps del: length_sort)
qed

lemma nanmedian_finrow:
  assumes "finrow row"
  shows "nanmedian row = (if fins row = [] then NaN else Fin (med (sort (fins row))))"
proof (cases "fins row = []")
  case True
  then show ?thesis using assms by (simp add: nanmedian_def valid_finrow sort_val_def)
next
  case False
  let ?n = "length (fins row)"
  have n: "0 < ?n" using False by simp
  have a: "?n div 2 < ?n" using n by simp
  have b: "?n div 2 - 1 < ?n" using n by arith
  show ?thesis using False a b sort_not_Nil[OF False]
    by (simp add: nanmedian_def valid_finrow[OF assms(1)] sort_val_Fin med_def Let_def)
qed

lemma map_all_nan: "fins row = [] \<Longrightarrow> finrow row \<Longrightarrow> g NaN = NaN \<Longrightarrow> valid (map g row) = []"
  by (auto simp: fins_empty_iff valid_empty_iff)

lemma moment_row_finrow:
  assumes "finrow row" "0 < k"
  shows "moment_row row k =
         (if fins row = [] then NaN else Fin (central_moment (fins row) k))"
proof (cases "fins row = []")
  case True
  have "valid (map (\<lambda>x. fpow (fsub x (nanmean row)) k) row) = []"
    using True assms by (intro map_all_nan) (auto simp: fsub_def)
  then show ?thesis using True by (simp add: moment_row_def nanmean_no_valid)
next
  case False
  let ?m = "mean (fins row)"
  let ?g = "\<lambda>x. fpow (fsub x (Fin ?m)) k"
  have m: "nanmean row = Fin ?m" using False assms by (simp add: nanmean_finrow)
  have g: "?g NaN = NaN" "\<And>r. ?g (Fin r) = Fin ((r - ?m) ^ k)"
    using assms(2) by (simp_all add: fsub_def)
  have fr: "finrow (map ?g row)"
    by (rule finrow_map(1)[OF assms(1) g])
  have fi: "fins (map ?g row) = map (\<lambda>x. (x - ?m) ^ k) (fins row)"
    by (rule finrow_map(2)[OF assms(1) g])
  show ?thesis using False
    by (simp add: moment_row_def m nanmean_finrow[OF fr] fi central_moment_def)
qed


lemma fsum_sqr_finrow:
  "finrow row \<Longrightarrow>
   fsum (map (\<lambda>x. if isnan x then Fin 0 else fmul (fsub x (Fin m)) (fsub x (Fin m))) row)
   = Fin (sum_list (map (\<lambda>x. (x - m) ^ 2) (fins row)))"
  by (induction rule: finrow_induct)
     (auto simp: fsum_def isnan_def fsub_def power2_eq_square)

lemma nanvar_finrow:
  assumes "finrow row"
  shows "nanvar row = (if fins row = [] then NaN else Fin (central_moment (fins row) 2))"
proof (cases "fins row = []")
  case True
  then show ?thesis using assms by (simp add: nanvar_def length_valid_finrow)
next
  case False
  have m: "nanmean row = Fin (mean (fins row))" using False assms by (simp add: nanmean_finrow)
  show ?thesis using False
    by (simp add: nanvar_def m length_valid_finrow[OF assms] fsum_sqr_finrow[OF assms]
        central_moment_def mean_def)
qed

lemma central_moment2_nonneg: "0 \<le> central_moment xs 2"
  unfolding central_moment_def mean_def
  by (intro divide_nonneg_nonneg sum_list_nonneg) auto

lemma nanstd_finrow:
  assumes "finrow row"
  shows "nanstd row = (if fins row = [] then NaN else Fin (sqrt (central_moment (fins row) 2)))"
  using central_moment2_nonneg[of "fins row"]
  by (simp add: nanstd_def nanvar_finrow[OF assms])


lemma Min_insert_insert:
  "finite S \<Longrightarrow> Min (insert a (insert r S)) = Min (insert (min a r) S)" for a :: real
  by (cases "S = {}") (auto simp: min.assoc)

lemma Max_insert_insert:
  "finite S \<Longrightarrow> Max (insert a (insert r S)) = Max (insert (max a r) S)" for a :: real
  by (cases "S = {}") (auto simp: max.assoc)

lemma fmin_simps:
  "fmin (Fin a) NaN = Fin a" "fmin (Fin a) (Fin r) = Fin (min a r)" "fmin NaN x = x"
  by (auto simp: fmin_def isnan_def)

lemma fmax_simps:
  "fmax (Fin a) NaN = Fin a" "fmax (Fin a) (Fin r) = Fin (max a r)" "fmax NaN x = x"
  by (auto simp: fmax_def isnan_def)

lemma foldl_fmin_finrow:
  "finrow row \<Longrightarrow> foldl fmin (Fin a) row = Fin (Min (insert a (set (fins row))))"
proof (induction row arbitrary: a)
  case Nil show ?case by simp
next
  case (Cons x xs)
  then have fx: "finrow xs" and x: "x = NaN \<or> (\<exists>r. x = Fin r)"
    by (auto simp: finrow_Cons)
  from x show ?case
  proof
    assume "x = NaN"
    then show ?thesis using Cons.IH[OF fx, of a] by (simp add: fmin_simps)
  next
    assume "\<exists>r. x = Fin r"
    then obtain r where r: "x = Fin r" by blast
    have "foldl fmin (Fin a) (x # xs) = Fin (Min (insert (min a r) (set (fins xs))))"
      using Cons.IH[OF fx, of "min a r"] r by (simp add: fmin_simps)
    also have "Min (insert (min a r) (set (fins xs))) = Min (insert a (insert r (set (fins xs))))"
      by (rule Min_insert_insert[symmetric]) simp
    finally show ?thesis using r by simp
  qed
qed

lemma foldl_fmax_finrow:
  "finrow row \<Longrightarrow> foldl fmax (Fin a) row = Fin (Max (insert a (set (fins row))))"
proof (induction row arbitrary: a)
  case Nil show ?case by simp
next
  case (Cons x xs)
  then have fx: "finrow xs" and x: "x = NaN \<or> (\<exists>r. x = Fin r)"
    by (auto simp: finrow_Cons)
  from x show ?case
  proof
    assume "x = NaN"
    then show ?thesis using Cons.IH[OF fx, of a] by (simp add: fmax_simps)
  next
    assume "\<exists>r. x = Fin r"
    then obtain r where r: "x = Fin r" by blast
    have "foldl fmax (Fin a) (x # xs) = Fin (Max (insert (max a r) (set (fins xs))))"
      using Cons.IH[OF fx, of "max a r"] r by (simp add: fmax_simps)
    also have "Max (insert (max a r) (set (fins xs))) = Max (insert a (insert r (set (fins xs))))"
      by (rule Max_insert_insert[symmetric]) simp
    finally show ?thesis using r by simp
  qed
qed

lemma foldl_fmin_nan_finrow:
  "finrow row \<Longrightarrow> foldl fmin NaN row = (if fins row = [] then NaN else Fin (Min (set (fins row))))"
proof (induction rule: finrow_induct)
  case Nil show ?case by simp
next
  case (Nan xs) then show ?case by (simp add: fmin_simps)
next
  case (Fin r xs) then show ?case by (simp add: fmin_simps foldl_fmin_finrow)
qed

lemma foldl_fmax_nan_finrow:
  "finrow row \<Longrightarrow> foldl fmax NaN row = (if fins row = [] then NaN else Fin (Max (set (fins row))))"
proof (induction rule: finrow_induct)
  case Nil show ?case by simp
next
  case (Nan xs) then show ?case by (simp add: fmax_simps)
next
  case (Fin r xs) then show ?case by (simp add: fmax_simps foldl_fmax_finrow)
qed

lemma nanmin_finrow:
  "finrow row \<Longrightarrow> row \<noteq> [] \<Longrightarrow>
   nanmin row = Inr (if fins row = [] then NaN else Fin (Min (set (fins row))))"
  by (cases row) (auto simp: finrow_Cons foldl_fmin_nan_finrow foldl_fmin_finrow)

lemma nanmax_finrow:
  "finrow row \<Longrightarrow> row \<noteq> [] \<Longrightarrow>
   nanmax row = Inr (if fins row = [] then NaN else Fin (Max (set (fins row))))"
  by (cases row) (auto simp: finrow_Cons foldl_fmax_nan_finrow foldl_fmax_finrow)

lemma const_row_finrow: "const_row c row \<Longrightarrow> finrow row"
  by (induction row) (auto simp: const_row_def finrow_Cons finrow_Nil)

lemma const_row_fins: "const_row c row \<Longrightarrow> fins row = replicate (length (fins row)) c"
  by (induction row) (auto simp: const_row_def)

lemma mean_replicate: "0 < n \<Longrightarrow> mean (replicate n c) = c"
  by (simp add: mean_def sum_list_replicate)

lemma central_moment_replicate: "0 < n \<Longrightarrow> 0 < k \<Longrightarrow> central_moment (replicate n c) k = 0"
  by (simp add: central_moment_def mean_replicate)

lemma sort_replicate: "sort (replicate n c) = replicate n c"
  by (rule sorted_sort_id) simp

lemma pct_replicate:
  assumes "0 < n" "0 \<le> q" "q \<le> 100"
  shows "pct (replicate n c) q = c"
proof -
  have lo: "nat \<lfloor>q / 100 * real (n - 1)\<rfloor> < n" by (rule pct_index_bounds[OF assms(2,3,1)])
  have hi: "min (nat \<lfloor>q / 100 * real (n - 1)\<rfloor> + 1) (n - 1) < n"
    using assms(1) by (simp add: min_less_iff_disj)
  show ?thesis using lo hi by (simp add: pct_def Let_def)
qed

lemma med_replicate: "0 < n \<Longrightarrow> med (replicate n c) = c"
proof -
  assume n: "0 < n"
  then have "n div 2 < n" "n div 2 - 1 < n" by arith+
  then show ?thesis by (simp add: med_def Let_def)
qed

lemma const_row_stats:
  assumes "const_row c row" "0 < length (valid row)"
  shows "nanmean row = Fin c" "nanmedian row = Fin c" "nanstd row = Fin 0"
    "0 < k \<Longrightarrow> moment_row row k = Fin 0"
    "0 \<le> q \<Longrightarrow> q \<le> 100 \<Longrightarrow> nanpercentile row q = Fin c"
    "nanmin row = Inr (Fin c)" "nanmax row = Inr (Fin c)"
proof -
  have fr: "finrow row" by (rule const_row_finrow[OF assms(1)])
  define n where "n = length (fins row)"
  have n: "0 < n" using assms(2) by (simp add: n_def length_valid_finrow[OF fr])
  have xs: "fins row = replicate n c" unfolding n_def by (rule const_row_fins[OF assms(1)])
  have ne: "fins row \<noteq> []" using n xs by auto
  have rne: "row \<noteq> []" using ne by auto
  show "nanmean row = Fin c" using n by (simp add: nanmean_finrow[OF fr] xs mean_replicate)
  show "nanmedian row = Fin c"
    using n by (simp add: nanmedian_finrow[OF fr] xs sort_replicate med_replicate)
  show "nanstd row = Fin 0"
    using n by (simp add: nanstd_finrow[OF fr] xs central_moment_replicate)
  show "0 < k \<Longrightarrow> moment_row row k = Fin 0"
    using n by (simp add: moment_row_finrow[OF fr] xs central_moment_replicate)
  show "0 \<le> q \<Longrightarrow> q \<le> 100 \<Longrightarrow> nanpercentile row q = Fin c"
    using n by (simp add: nanpercentile_finrow[OF fr] xs sort_replicate pct_replicate)
  show "nanmin row = Inr (Fin c)"
    using n by (simp add: nanmin_finrow[OF fr rne] xs)
  show "nanmax row = Inr (Fin c)"
    using n by (simp add: nanmax_finrow[OF fr rne] xs)
qed

text \<open>
  In exact arithmetic the mean of a flat row is the repeated value, so the second moment
  is 0 and the guards fire. In a row whose valid entries all equal one number \<open>c\<close>, with
  more than one valid entry, Skewness and Kurtosis are then 0 (the guard replaces the
  second moment by 1 and the third and fourth moments are 0), Mean and Median are \<open>c\<close>,
  Range and Interquartile Range are 0, and Coefficient of Variation and Quartile
  Coefficient of Dispersion are 0 (for \<open>c = 0\<close> the quotient is \<open>0 / 0\<close>, which
  \<open>nan_to_num\<close> turns into 0). In double precision the computed mean of a flat row need
  not be \<open>c\<close>: the section on a flat row in double precision evaluates such a row.
\<close>

lemma flat_row_exact:
  assumes i: "i < length (rows (targetVoxelArray s))"
    and wf: "length (rows (targetVoxelArray s) ! i) = ncols (targetVoxelArray s)"
    and const: "const_row c (rows (targetVoxelArray s) ! i)"
    and n: "1 < length (valid (rows (targetVoxelArray s) ! i))"
  shows "(\<exists>v. getIntensitySkewness s = Inr v \<and> v ! i = Fin 0) \<and>
         (\<exists>v. getIntensityKurtosis s = Inr v \<and> v ! i = Fin 0) \<and>
         getMeanIntensity s ! i = Fin c \<and>
         getMedianIntensity s ! i = Fin c \<and>
         (\<exists>v. getIntensityRange s = Inr v \<and> v ! i = Fin 0) \<and>
         getIntensityInterquartileRange s ! i = Fin 0 \<and>
         getIntensityCoefficientOfVariation s ! i = Fin 0 \<and>
         getIntensityQuartileCoefficientOfDispersion s ! i = Fin 0"
proof -
  let ?row = "rows (targetVoxelArray s) ! i"
  have pos: "0 < length (valid ?row)" using n by arith
  note st = const_row_stats[OF const pos]
  have nc: "ncols (targetVoxelArray s) \<noteq> 0"
    using n wf length_filter_le[of "\<lambda>x. \<not> isnan x" ?row] by (simp add: valid_def)
  have skew: "\<exists>v. getIntensitySkewness s = Inr v \<and> v ! i = Fin 0"
    using i by (simp add: getIntensitySkewness_def moment_def flat_guard_def zero_where_flat_def
        st Let_def)
  have kurt: "\<exists>v. getIntensityKurtosis s = Inr v \<and> v ! i = Fin 0"
    using i by (simp add: getIntensityKurtosis_def moment_def flat_guard_def zero_where_flat_def
        st Let_def)
  have range: "\<exists>v. getIntensityRange s = Inr v \<and> v ! i = Fin 0"
    using i nc by (simp add: getIntensityRange_def reduce_rows_def st fsub_def)
  have cov: "getIntensityCoefficientOfVariation s ! i = Fin 0"
    using i by (simp add: getIntensityCoefficientOfVariation_def getMeanIntensity_def
        getStandardDeviationIntensity_def st inf_of_sign_def)
  have qcd: "getIntensityQuartileCoefficientOfDispersion s ! i = Fin 0"
    using i by (simp add: getIntensityQuartileCoefficientOfDispersion_def st fsub_def
        inf_of_sign_def Let_def)
  show ?thesis using skew kurt range cov qcd i
    by (simp add: getMeanIntensity_def getMedianIntensity_def
        getIntensityInterquartileRange_def st fsub_def)
qed

lemma flat_row_exact_example:
  "const_row 7 (rows (targetVoxelArray (sample_state 0 5 [[Fin 7, Fin 7, Fin 7, Fin 7, Fin 7]])) ! 0) \<and>
   1 < length (valid (rows (targetVoxelArray (sample_state 0 5 [[Fin 7, Fin 7, Fin 7, Fin 7, Fin 7]])) ! 0)) \<and>
   (\<exists>v. getIntensitySkewness (sample_state 0 5 [[Fin 7, Fin 7, Fin 7, Fin 7, Fin 7]]) = Inr v \<and> v ! 0 = Fin 0) \<and>
   (\<exists>v. getIntensityKurtosis (sample_state 0 5 [[Fin 7, Fin 7, Fin 7, Fin 7, Fin 7]]) = Inr v \<and> v ! 0 = Fin 0) \<and>
   getIntensityCoefficientOfVariation (sample_state 0 5 [[Fin 7, Fin 7, Fin 7, Fin 7, Fin 7]]) ! 0 = Fin 0 \<and>
   getIntensityQuartileCoefficientOfDispersion (sample_state 0 5 [[Fin 7, Fin 7, Fin 7, Fin 7, Fin 7]]) ! 0 = Fin 0"
  using flat_row_exact [of 0 "sample_state 0 5 [[Fin 7, Fin 7, Fin 7, Fin 7, Fin 7]]" 7]
  by (simp add: sample_state_def const_row_def valid_def isnan_def)

section \<open>The robust mean absolute deviation\<close>





lemma skewed_row: "0 < length (rows (targetVoxelArray skewed)) \<and>
    finrow (rows (targetVoxelArray skewed) ! 0)"
  by (simp add: skewed_def sample_state_def finrow_def isnan_def)











section \<open>Robust against plain mean absolute deviation\<close>








section \<open>Properties of the rounding\<close>

lemma round_even_error: "\<bar>of_int (round_even y) - y\<bar> \<le> 1 / 2"
  unfolding round_even_def Let_def by (auto simp: abs_if) linarith+

lemma round_even_int: "round_even (of_int n) = n"
  by (simp add: round_even_def)

lemma ulp_pos: "0 < ulp x"
  by (simp add: ulp_def)

lemma ulp_le:
  assumes "x \<noteq> 0"
  shows "ulp x * 2 ^ 52 \<le> \<bar>x\<bar>"
proof -
  have "2 powr of_int \<lfloor>log 2 \<bar>x\<bar>\<rfloor> \<le> 2 powr (log 2 \<bar>x\<bar>)"
    by (intro powr_mono) auto
  also have "\<dots> = \<bar>x\<bar>" using assms by simp
  finally have "2 powr of_int \<lfloor>log 2 \<bar>x\<bar>\<rfloor> \<le> \<bar>x\<bar>" .
  moreover have "ulp x * 2 ^ 52 = 2 powr of_int \<lfloor>log 2 \<bar>x\<bar>\<rfloor>"
  proof -
    have "ulp x = 2 powr of_int \<lfloor>log 2 \<bar>x\<bar>\<rfloor> / 2 powr 52"
      by (simp add: ulp_def powr_diff)
    moreover have "(2::real) powr 52 = 2 ^ 52" by simp
    ultimately show ?thesis by simp
  qed
  ultimately show ?thesis by simp
qed

lemma fl_zero: "fl 0 = 0"
  by (simp add: fl_def)

lemma fl_error: "\<bar>fl x - x\<bar> \<le> \<bar>x\<bar> / 2 ^ 53"
proof (cases "x = 0")
  case True then show ?thesis by (simp add: fl_def)
next
  case False
  let ?u = "ulp x"
  have "fl x - x = (of_int (round_even (x / ?u)) - x / ?u) * ?u"
    using False ulp_pos[of x] by (simp add: fl_def field_simps)
  then have "\<bar>fl x - x\<bar> = \<bar>of_int (round_even (x / ?u)) - x / ?u\<bar> * ?u"
    using ulp_pos[of x] by (simp add: abs_mult)
  also have "\<dots> \<le> 1 / 2 * ?u"
    using round_even_error[of "x / ?u"] ulp_pos[of x] by (intro mult_right_mono) auto
  also have "\<dots> = (?u * 2 ^ 52) / 2 ^ 53" by simp
  also have "\<dots> \<le> \<bar>x\<bar> / 2 ^ 53" using ulp_le[OF False] by (intro divide_right_mono) auto
  finally show ?thesis .
qed

lemma ulp_eval:
  assumes "2 powr of_int e \<le> \<bar>x\<bar>" "\<bar>x\<bar> < 2 powr of_int (e + 1)"
  shows "ulp x = 2 powr of_int (e - 52)"
proof -
  have x: "0 < \<bar>x\<bar>" using assms(1) by (smt (verit) powr_gt_zero)
  have "\<lfloor>log 2 \<bar>x\<bar>\<rfloor> = e"
  proof (rule floor_unique)
    show "of_int e \<le> log 2 \<bar>x\<bar>" using assms(1) x by (simp add: le_log_iff)
    show "log 2 \<bar>x\<bar> < of_int e + 1" using assms(2) x by (simp add: log_less_iff add.commute)
  qed
  then show ?thesis by (simp add: ulp_def)
qed

lemma fl_eval:
  assumes "2 powr of_int e \<le> \<bar>x\<bar>" "\<bar>x\<bar> < 2 powr of_int (e + 1)"
  shows "fl x = of_int (round_even (x / 2 powr of_int (e - 52))) * 2 powr of_int (e - 52)"
proof -
  have "x \<noteq> 0" using assms(1) by (smt (verit) powr_gt_zero)
  then show ?thesis by (simp add: fl_def ulp_eval[OF assms])
qed

lemma powr_int_nonneg: "0 \<le> j \<Longrightarrow> (2::real) powr of_int j = of_int (2 ^ nat j)"
  by (simp add: powr_real_of_int)

lemma fl_exact:
  assumes "\<bar>m\<bar> < 2 ^ 53"
  shows "fl (of_int m * 2 powr of_int k) = of_int m * 2 powr of_int k"
proof (cases "m = 0")
  case True then show ?thesis by (simp add: fl_def)
next
  case False
  let ?x = "of_int m * 2 powr of_int k :: real"
  let ?e = "\<lfloor>log 2 \<bar>?x\<bar>\<rfloor>"
  have x0: "?x \<noteq> 0" using False by simp
  have "\<bar>?x\<bar> < 2 ^ 53 * 2 powr of_int k"
  proof -
    have "\<bar>real_of_int m\<bar> < 2 ^ 53"
      using assms by (metis of_int_abs of_int_less_numeral_power_cancel_iff)
    then show ?thesis by (simp add: abs_mult)
  qed
  also have "\<dots> = 2 powr (53 + of_int k)" by (simp add: powr_add)
  finally have "log 2 \<bar>?x\<bar> < 53 + of_int k"
    using x0 by (simp add: log_less_iff)
  then have "?e < 53 + k" by linarith
  then have j: "0 \<le> k - (?e - 52)" by linarith
  have u: "ulp ?x = 2 powr of_int (?e - 52)" by (simp add: ulp_def)
  have "?x / ulp ?x = of_int m * 2 powr of_int (k - (?e - 52))"
    unfolding u by (simp add: powr_diff)
  also have "\<dots> = of_int (m * 2 ^ nat (k - (?e - 52)))"
    using powr_int_nonneg[OF j] by simp
  finally have q: "?x / ulp ?x = of_int (m * 2 ^ nat (k - (?e - 52)))" .
  have "fl ?x = of_int (round_even (?x / ulp ?x)) * ulp ?x" using x0 by (simp add: fl_def)
  also have "\<dots> = (?x / ulp ?x) * ulp ?x" unfolding q round_even_int ..
  also have "\<dots> = ?x" using ulp_pos[of ?x] by simp
  finally show ?thesis .
qed

lemma fl_exact_div:
  assumes "\<bar>m\<bar> < 2 ^ 53"
  shows "fl (of_int m / 2 ^ n) = of_int m / 2 ^ n"
proof -
  have "(2::real) powr of_int (- int n) = 1 / 2 ^ n"
    by (simp add: powr_minus powr_realpow divide_simps)
  then show ?thesis using fl_exact[OF assms, of "- int n"] by simp
qed

lemma fl_sixth: "fl (1 / 6) = 6004799503160661 / 2 ^ 55"
  by (subst fl_eval[where e = "-3"]) (simp_all add: round_even_def powr_neg_numeral)

section \<open>A flat row in double precision\<close>

lemma fl_add_exact:
  assumes "\<bar>a + b\<bar> < 2 ^ 53"
  shows "fl (of_int a / 2 ^ n + of_int b / 2 ^ n) = of_int (a + b) / 2 ^ n"
  using fl_exact_div[OF assms, of n] by (simp add: add_divide_distrib)

lemma nanmean_d_three:
  "nanmean_d [Fin a, Fin b, Fin c] = Fin (fl (fl (fl (fl (0 + a) + b) + c) / 3))"
  by (simp add: nanmean_d_def nansum_d_def nan_to_zero_def isnan_def valid_def)

lemma pow2_mean:
  assumes "s = 1 \<or> s = - 1"
  shows "nanmean_d [Fin (of_int s / 2 ^ n), Fin (of_int s / 2 ^ n), Fin (of_int s / 2 ^ n)]
         = Fin (of_int s / 2 ^ n)"
proof -
  let ?t = "of_int s / 2 ^ n :: real"
  have a: "fl (0 + ?t) = ?t" using assms fl_exact_div[of s n] by auto
  have b: "fl (?t + ?t) = of_int (s + s) / 2 ^ n"
    using assms by (intro fl_add_exact) auto
  have c: "fl (of_int (s + s) / 2 ^ n + ?t) = of_int (s + s + s) / 2 ^ n"
    using assms by (intro fl_add_exact) auto
  have d: "of_int (s + s + s) / 2 ^ n / 3 = ?t" by simp
  show ?thesis unfolding nanmean_d_three a b c d using assms fl_exact_div[of s n] by auto
qed

lemma tenth_mean:
  "nanmean_d [Fin (3602879701896397 / 2 ^ 55), Fin (3602879701896397 / 2 ^ 55),
              Fin (3602879701896397 / 2 ^ 55)] = Fin (7205759403792795 / 2 ^ 56)"
proof -
  let ?c = "3602879701896397 / 2 ^ 55 :: real"
  have a: "fl (0 + ?c) = ?c" using fl_exact_div[of 3602879701896397 55] by simp
  have b: "fl (?c + ?c) = 3602879701896397 / 2 ^ 54"
    using fl_exact_div[of 3602879701896397 54] by simp
  have c: "fl (3602879701896397 / 2 ^ 54 + ?c) = 5404319552844596 / 2 ^ 54"
    by (subst fl_eval[where e = "-2"]) (simp_all add: round_even_def powr_neg_numeral)
  have d: "fl (5404319552844596 / 2 ^ 54 / 3) = 7205759403792795 / 2 ^ 56"
    by (subst fl_eval[where e = "-4"]) (simp_all add: round_even_def powr_neg_numeral)
  show ?thesis unfolding nanmean_d_three a b c d ..
qed

lemma tenth_deviation:
  "rd (fsub (Fin (3602879701896397 / 2 ^ 55)) (Fin (7205759403792795 / 2 ^ 56)))
   = Fin (of_int (- 1) / 2 ^ 56)"
proof -
  have "(3602879701896397 / 2 ^ 55 - 7205759403792795 / 2 ^ 56 :: real) = of_int (- 1) / 2 ^ 56"
    by simp
  then show ?thesis using fl_exact_div[of "- 1" 56] by (simp add: fsub_def)
qed

lemma deviation_powers:
  "rd (fpow (Fin (of_int (- 1) / 2 ^ 56)) 2) = Fin (of_int 1 / 2 ^ 112)"
  "rd (fpow (Fin (of_int (- 1) / 2 ^ 56)) 3) = Fin (of_int (- 1) / 2 ^ 168)"
  "rd (fpow (Fin (of_int (- 1) / 2 ^ 56)) 4) = Fin (of_int 1 / 2 ^ 224)"
  using fl_exact_div[of 1 112] fl_exact_div[of "- 1" 168] fl_exact_div[of 1 224]
  by (simp_all add: power_divide)

lemma flat_moments:
  "moment_row_d (rows (targetVoxelArray flat_tenths) ! 0) 2 = Fin (of_int 1 / 2 ^ 112)"
  "moment_row_d (rows (targetVoxelArray flat_tenths) ! 0) 3 = Fin (of_int (- 1) / 2 ^ 168)"
  "moment_row_d (rows (targetVoxelArray flat_tenths) ! 0) 4 = Fin (of_int 1 / 2 ^ 224)"
  unfolding flat_tenths_def sample_state_def moment_row_d_def Let_def
  by (simp_all only: ibs.simps matrix.simps nth_Cons_0 list.map tenth_mean tenth_deviation
      deviation_powers pow2_mean[OF disjI1[OF refl]] pow2_mean[OF disjI2[OF refl]])

lemma pow15: "(1 / 2 ^ 112 :: real) powr (3 / 2) = 1 / 2 ^ 168"
proof -
  have a: "(1 / 2 ^ 112 :: real) = 2 powr (- 112)" by (simp add: powr_neg_numeral)
  have b: "(1 / 2 ^ 168 :: real) = 2 powr (- 168)" by (simp add: powr_neg_numeral)
  have c: "((2::real) powr (- 112)) powr (3 / 2) = 2 powr (- 168)" by (simp add: powr_powr)
  show ?thesis unfolding a b by (rule c)
qed

lemma flat_mean: "getMeanIntensity_d flat_tenths = [Fin (7205759403792795 / 2 ^ 56)]"
  unfolding getMeanIntensity_d_def flat_tenths_def sample_state_def
  by (simp only: ibs.simps matrix.simps list.map tenth_mean)

lemma flat_rows:
  "rows (targetVoxelArray flat_tenths) = [rows (targetVoxelArray flat_tenths) ! 0]"
  by (simp add: flat_tenths_def sample_state_def)

lemma flat_moment_vectors:
  "moment_d (targetVoxelArray flat_tenths) 2 = Vector [Fin (1 / 2 ^ 112)]"
  "moment_d (targetVoxelArray flat_tenths) 3 = Vector [Fin (- (1 / 2 ^ 168))]"
  "moment_d (targetVoxelArray flat_tenths) 4 = Vector [Fin (1 / 2 ^ 224)]"
  unfolding moment_d_def by (subst flat_rows, simp add: flat_moments)+

lemma flat_guard_kept:
  "flat_guard [Fin (1 / 2 ^ 112)] = [Fin (1 / 2 ^ 112)]"
  "zero_where_flat [y] [Fin (1 / 2 ^ 112)] = [y]"
  by (simp_all add: flat_guard_def zero_where_flat_def)

lemma flat_quotients:
  "rd (fdiv (Fin (- (1 / 2 ^ 168))) (rd (fpow15 (Fin (1 / 2 ^ 112))))) = Fin (- 1)"
  "rd (fdiv (Fin (1 / 2 ^ 224)) (rd (fpow (Fin (1 / 2 ^ 112)) 2))) = Fin 1"
proof -
  have p0: "fpow15 (Fin (1 / 2 ^ 112)) = Fin ((1 / 2 ^ 112) powr (3 / 2))" by simp
  have f1: "fl (1 / 2 ^ 168) = 1 / 2 ^ 168" using fl_exact_div[of 1 168] by simp
  have p: "rd (fpow15 (Fin (1 / 2 ^ 112))) = Fin (1 / 2 ^ 168)"
    unfolding p0 pow15 rd.simps f1 ..
  have q: "fdiv (Fin (- (1 / 2 ^ 168))) (Fin (1 / 2 ^ 168)) = Fin (- 1)" by simp
  have f: "fl (- 1) = - 1" "fl 1 = 1" using fl_exact_div[of "- 1" 0] fl_exact_div[of 1 0] by simp_all
  show "rd (fdiv (Fin (- (1 / 2 ^ 168))) (rd (fpow15 (Fin (1 / 2 ^ 112))))) = Fin (- 1)"
    unfolding p q by (simp add: f)
  have p2: "rd (fpow (Fin (1 / 2 ^ 112)) 2) = Fin (1 / 2 ^ 224)"
    using fl_exact_div[of 1 224] by (simp add: power_divide)
  have q2: "fdiv (Fin (1 / 2 ^ 224)) (Fin (1 / 2 ^ 224)) = Fin 1" by simp
  show "rd (fdiv (Fin (1 / 2 ^ 224)) (rd (fpow (Fin (1 / 2 ^ 112)) 2))) = Fin 1"
    unfolding p2 q2 by (simp add: f)
qed

lemma flat_skewness: "getIntensitySkewness_d flat_tenths = Inr [Fin (- 1)]"
  unfolding getIntensitySkewness_d_def flat_moment_vectors
  by (simp only: prod.case result.case Let_def flat_guard_kept zip.simps list.case list.map
      flat_quotients)

lemma flat_kurtosis: "getIntensityKurtosis_d flat_tenths = Inr [Fin 1]"
  unfolding getIntensityKurtosis_d_def flat_moment_vectors
  by (simp only: prod.case result.case Let_def flat_guard_kept zip.simps list.case list.map
      flat_quotients)

text \<open>
  Claim C1, evaluated in double precision on the flat row of three entries 0.1 (the
  double \<open>3602879701896397 / 2^55\<close>). The comments at the guards of
  \<open>getIntensitySkewness\<close> and \<open>getIntensityKurtosis\<close> announce what the claim says
  (\<^verbatim>\<open>Flat Region, prevent division by 0 errors\<close>,
  \<^verbatim>\<open>ensure Flat Regions are returned as 0\<close>). The sum \<open>0.1 + 0.1 + 0.1\<close> is rounded
  upwards, so the computed mean is not the repeated value but the next double above it;
  every deviation from the mean is \<open>- 2^-56\<close>, the second moment is \<open>2^-112\<close> and not 0,
  the guard \<^verbatim>\<open>m2 == 0\<close> does not fire, and the code returns Skewness -1 and Kurtosis 1
  where the claim and the comments say 0.
\<close>

theorem flat_row_in_doubles:
  "const_row (3602879701896397 / 2 ^ 55) (rows (targetVoxelArray flat_tenths) ! 0) \<and>
   length (valid (rows (targetVoxelArray flat_tenths) ! 0)) = 3 \<and>
   getMeanIntensity_d flat_tenths = [Fin (7205759403792795 / 2 ^ 56)] \<and>
   (7205759403792795 / 2 ^ 56 :: real) \<noteq> 3602879701896397 / 2 ^ 55 \<and>
   moment_d (targetVoxelArray flat_tenths) 2 = Vector [Fin (1 / 2 ^ 112)] \<and>
   getIntensitySkewness_d flat_tenths = Inr [Fin (- 1)] \<and>
   getIntensityKurtosis_d flat_tenths = Inr [Fin 1]"
proof -
  have c: "const_row (3602879701896397 / 2 ^ 55) (rows (targetVoxelArray flat_tenths) ! 0) \<and>
           length (valid (rows (targetVoxelArray flat_tenths) ! 0)) = 3"
    by (simp add: flat_tenths_def sample_state_def const_row_def valid_def isnan_def)
  have n: "(7205759403792795 / 2 ^ 56 :: real) \<noteq> 3602879701896397 / 2 ^ 55" by simp
  show ?thesis
    using c n flat_mean flat_skewness flat_kurtosis flat_moment_vectors(1) by blast
qed

section \<open>The gray-level occupancy\<close>

lemma example_select_disc: "select (discretizedImageArray example) (maskArray example) = Inr [1, 3, 1]"
  by (simp add: example_def select_def line_def) code_simp

lemma example_select_img: "select (imageArray example) (maskArray example) = Inr [Fin 10, Fin 30, Fin 40]"
  by (simp add: example_def select_def line_def) code_simp

lemma example_raw: "raw_p_i None example = Inr [[2, 1]]"
  by (simp add: raw_p_i_def example_select_disc unique_counts_def)

lemma sumBins_counts:
  "sumBins (counts_row cs) = Fin (if sum_list cs = 0 then 1 else real (sum_list cs))"
proof -
  have "fsum (counts_row cs) = Fin (real (sum_list cs))"
    by (induction cs) (auto simp: counts_row_def fsum_def)
  then show ?thesis by (simp add: sumBins_def del: sum_list_eq_0_iff)
qed

lemma normalize_counts:
  "normalize_row (counts_row cs) =
   map (\<lambda>c. Fin (fl (real c / (if sum_list cs = 0 then 1 else real (sum_list cs))))) cs"
proof -
  define d where "d = (if sum_list cs = 0 then 1 else real (sum_list cs))"
  have d: "d \<noteq> 0" unfolding d_def by (simp del: sum_list_eq_0_iff)
  have "normalize_row (counts_row cs) = map (\<lambda>p. rd (fdiv p (Fin d))) (counts_row cs)"
    unfolding normalize_row_def sumBins_counts d_def ..
  also have "\<dots> = map (\<lambda>c. Fin (fl (real c / d))) cs" using d by (simp add: counts_row_def)
  finally show ?thesis unfolding d_def .
qed

lemma normalize_entries:
  "normalize_row (counts_row cs) =
   map (\<lambda>c. rd (fdiv (Fin (real c)) (sumBins (counts_row cs)))) cs"
  by (simp add: normalize_row_def counts_row_def)

lemma fsum_map_Fin: "fsum (map (\<lambda>c. Fin (f c)) cs) = Fin (sum_list (map f cs))"
  by (induction cs) (auto simp: fsum_def)

lemma sum_list_real_div:
  "sum_list (map (\<lambda>c. real c / d) cs) = real (sum_list cs) / d" for cs :: "nat list"
  by (induction cs) (auto simp: add_divide_distrib)

lemma normalize_row_fin: "list_all is_fin (normalize_row (counts_row cs))"
  unfolding normalize_counts by (simp add: list_all_iff)

lemma normalize_row_zero:
  assumes "sum_list cs = 0"
  shows "list_all (\<lambda>p. p = Fin 0) (normalize_row (counts_row cs))"
proof -
  have "\<forall>c\<in>set cs. c = 0" using assms by simp
  then show ?thesis unfolding normalize_counts by (auto simp: list_all_iff fl_zero)
qed

lemma sum_list_div_const:
  "sum_list (map (\<lambda>c. f c / k) cs) = sum_list (map f cs) / k" for f :: "'a \<Rightarrow> real"
  by (induction cs) (auto simp: add_divide_distrib)

lemma normalize_row_near_one:
  assumes "sum_list cs \<noteq> 0"
  shows "\<exists>t. fsum (normalize_row (counts_row cs)) = Fin t \<and> \<bar>t - 1\<bar> \<le> 1 / 2 ^ 53"
proof -
  define d where "d = real (sum_list cs)"
  have d: "0 < d" using assms unfolding d_def by (simp del: sum_list_eq_0_iff)
  let ?q = "\<lambda>c. real c / d"
  let ?t = "sum_list (map (\<lambda>c. fl (?q c)) cs)"
  have one: "sum_list (map ?q cs) = 1"
    unfolding sum_list_real_div using d by (simp add: d_def del: sum_list_eq_0_iff)
  have "?t - 1 = sum_list (map (\<lambda>c. fl (?q c) - ?q c) cs)"
    by (simp add: sum_list_subtractf one)
  also have "\<bar>\<dots>\<bar> \<le> sum_list (map (\<lambda>c. \<bar>fl (?q c) - ?q c\<bar>) cs)"
    using sum_list_abs[of "map (\<lambda>c. fl (?q c) - ?q c) cs"] by (simp add: comp_def)
  also have "\<dots> \<le> sum_list (map (\<lambda>c. ?q c / 2 ^ 53) cs)"
  proof (rule sum_list_mono)
    fix c assume "c \<in> set cs"
    have "0 \<le> ?q c" using d by simp
    then show "\<bar>fl (?q c) - ?q c\<bar> \<le> ?q c / 2 ^ 53" using fl_error[of "?q c"] by simp
  qed
  also have "\<dots> = sum_list (map ?q cs) / 2 ^ 53"
    by (rule sum_list_div_const)
  finally have b: "\<bar>?t - 1\<bar> \<le> 1 / 2 ^ 53" by (simp add: one)
  have "fsum (normalize_row (counts_row cs)) = Fin ?t"
    using assms unfolding normalize_counts fsum_map_Fin d_def by (simp del: sum_list_eq_0_iff)
  then show ?thesis using b by blast
qed


lemma example_target_agg:
  "target_rows None example = Inr \<lparr>ncols = 3, rows = [[Fin 10, Fin 30, Fin 40]]\<rparr>"
  by (simp add: target_rows_def example_select_img)

lemma example_init_agg: "initCalculation None example = Inr example_aggregate"
  by (simp add: initCalculation_def example_target_agg example_raw example_aggregate_def)

lemma example_target_local:
  "target_rows (Some [(0, 0, 0), (0, 0, 7)]) (example_voxel 2 example_angles2) =
   Inr \<lparr>ncols = 5, rows = [[NaN, NaN, NaN, Fin 30, Fin 10], [NaN, NaN, NaN, NaN, NaN]]\<rparr>"
  by code_simp

lemma example_raw_local:
  "raw_p_i (Some [(0, 0, 0), (0, 0, 7)]) (example_voxel 2 example_angles2) =
   Inr [[1, 0, 1], [0, 0, 0]]"
  by code_simp

lemma example_init_local:
  "initCalculation (Some [(0, 0, 0), (0, 0, 7)]) (example_voxel 2 example_angles2) =
   Inr example_local"
  by (simp add: initCalculation_def example_target_local example_raw_local example_local_def)
     (simp add: example_voxel_def example_def)

lemma six_raw: "raw_p_i None six_levels = Inr [[1, 1, 1, 1, 1, 1]]"
  by code_simp

lemma six_target:
  "target_rows None six_levels =
   Inr \<lparr>ncols = 6, rows = [[Fin 1, Fin 2, Fin 3, Fin 4, Fin 5, Fin 6]]\<rparr>"
  by code_simp

lemma six_norm:
  "normalize_row (counts_row [1, 1, 1, 1, 1, 1]) = replicate 6 (Fin (6004799503160661 / 2 ^ 55))"
proof -
  have "fl (1 / 6) = 6004799503160661 / 2 ^ 55" by (rule fl_sixth)
  then show ?thesis unfolding normalize_counts by (simp add: numeral_eq_Suc)
qed

lemma six_init: "initCalculation None six_levels = Inr six_aggregate"
  unfolding initCalculation_def six_target six_raw
  by (simp only: sum.case option.case list.map six_norm six_aggregate_def list.sel)
     (simp add: six_levels_def)

lemma six_sum:
  "fsum (replicate 6 (Fin (6004799503160661 / 2 ^ 55))) = Fin (1 - 1 / 2 ^ 54)"
  by (simp add: fsum_def numeral_eq_Suc)

lemma nansum_d_six:
  "nansum_d [Fin a, Fin b, Fin c, Fin d, Fin e, Fin f] =
   Fin (fl (fl (fl (fl (fl (fl (0 + a) + b) + c) + d) + e) + f))"
  by (simp add: nansum_d_def nan_to_zero_def isnan_def)

lemma six_sum_doubles:
  "nansum_d (replicate 6 (Fin (6004799503160661 / 2 ^ 55))) = Fin (9007199254740991 / 2 ^ 53)"
proof -
  let ?p = "6004799503160661 / 2 ^ 55 :: real"
  have r: "replicate 6 (Fin ?p) = [Fin ?p, Fin ?p, Fin ?p, Fin ?p, Fin ?p, Fin ?p]"
    by (simp add: numeral_eq_Suc)
  have s1: "fl (0 + ?p) = ?p" using fl_exact_div[of 6004799503160661 55] by simp
  have s2: "fl (?p + ?p) = 6004799503160661 / 2 ^ 54"
    using fl_exact_div[of 6004799503160661 54] by simp
  have s3: "fl (6004799503160661 / 2 ^ 54 + ?p) = 1 / 2"
    by (subst fl_eval[where e = "-2"]) (simp_all add: round_even_def powr_neg_numeral)
  have s4: "fl (1 / 2 + ?p) = 6004799503160661 / 2 ^ 53"
    by (subst fl_eval[where e = "-1"]) (simp_all add: round_even_def powr_neg_numeral)
  have s5: "fl (6004799503160661 / 2 ^ 53 + ?p) = 7505999378950826 / 2 ^ 53"
    by (subst fl_eval[where e = "-1"]) (simp_all add: round_even_def powr_neg_numeral)
  have s6: "fl (7505999378950826 / 2 ^ 53 + ?p) = 9007199254740991 / 2 ^ 53"
    by (subst fl_eval[where e = "-1"]) (simp_all add: round_even_def powr_neg_numeral)
  show ?thesis unfolding r nansum_d_six s1 s2 s3 s4 s5 s6 ..
qed

text \<open>
  Claim C5, as stated, fails. With six masked voxels, each of a gray level of its own,
  every entry of the row of \<open>p_i\<close> is the double nearest to \<open>1/6\<close>, which is smaller than
  \<open>1/6\<close>. The six entries sum to \<open>1 - 2^-54\<close>; added in double precision from left to
  right they give \<open>1 - 2^-53\<close>, the double just below 1. Neither sum is 1.
\<close>

theorem occupancy_sum_counterexample:
  "initCalculation None six_levels = Inr six_aggregate \<and>
   raw_p_i None six_levels = Inr [[1, 1, 1, 1, 1, 1]] \<and>
   rows (p_i six_aggregate) = [replicate 6 (Fin (6004799503160661 / 2 ^ 55))] \<and>
   fsum (rows (p_i six_aggregate) ! 0) = Fin (1 - 1 / 2 ^ 54) \<and>
   fsum (rows (p_i six_aggregate) ! 0) \<noteq> Fin 1 \<and>
   nansum_d (rows (p_i six_aggregate) ! 0) = Fin (9007199254740991 / 2 ^ 53) \<and>
   nansum_d (rows (p_i six_aggregate) ! 0) \<noteq> Fin 1"
proof -
  have r: "rows (p_i six_aggregate) = [replicate 6 (Fin (6004799503160661 / 2 ^ 55))]"
    by (simp add: six_aggregate_def)
  have s: "fsum (rows (p_i six_aggregate) ! 0) = Fin (1 - 1 / 2 ^ 54)"
    unfolding r by (simp only: nth_Cons_0 six_sum)
  have n: "fsum (rows (p_i six_aggregate) ! 0) \<noteq> Fin 1" unfolding s by simp
  have d: "nansum_d (rows (p_i six_aggregate) ! 0) = Fin (9007199254740991 / 2 ^ 53)"
    unfolding r by (simp only: nth_Cons_0 six_sum_doubles)
  have m: "nansum_d (rows (p_i six_aggregate) ! 0) \<noteq> Fin 1" unfolding d by simp
  show ?thesis using six_init six_raw r s n d m by blast
qed

text \<open>
  Claim C5, amended. After \<open>_initCalculation\<close>, in aggregate mode and in local mode, every
  row of \<open>p_i\<close> holds the doubles nearest to the quotients of the raw counts by a finite,
  non-zero number (the row sum, or 1 when the row sum is 0), so the normalization never
  divides by zero. The entries are finite; they are all 0 when the counts sum to 0;
  otherwise their sum differs from 1 by at most \<open>2^-53\<close>.
\<close>

theorem occupancy_rows_normalized:
  assumes "initCalculation voxelCoordinates s = Inr s'"
  shows "\<exists>cnt. raw_p_i voxelCoordinates s = Inr cnt \<and>
           length (rows (p_i s')) = length cnt \<and>
           (\<forall>i<length cnt.
              sumBins (counts_row (cnt ! i)) \<noteq> Fin 0 \<and>
              is_fin (sumBins (counts_row (cnt ! i))) \<and>
              rows (p_i s') ! i =
                map (\<lambda>c. rd (fdiv (Fin (real c)) (sumBins (counts_row (cnt ! i))))) (cnt ! i) \<and>
              list_all is_fin (rows (p_i s') ! i) \<and>
              (if sum_list (cnt ! i) = 0
               then list_all (\<lambda>p. p = Fin 0) (rows (p_i s') ! i)
               else \<exists>t. fsum (rows (p_i s') ! i) = Fin t \<and> \<bar>t - 1\<bar> \<le> 1 / 2 ^ 53))"
proof -
  from assms obtain cnt where c: "raw_p_i voxelCoordinates s = Inr cnt"
    and s': "rows (p_i s') = map (\<lambda>cs. normalize_row (counts_row cs)) cnt"
    by (auto simp: initCalculation_def split: sum.splits)
  have len: "length (rows (p_i s')) = length cnt" using s' by simp
  have row: "rows (p_i s') ! i = normalize_row (counts_row (cnt ! i))" if "i < length cnt" for i
    using that s' by simp
  have "\<forall>i<length cnt.
          sumBins (counts_row (cnt ! i)) \<noteq> Fin 0 \<and>
          is_fin (sumBins (counts_row (cnt ! i))) \<and>
          rows (p_i s') ! i =
            map (\<lambda>c. rd (fdiv (Fin (real c)) (sumBins (counts_row (cnt ! i))))) (cnt ! i) \<and>
          list_all is_fin (rows (p_i s') ! i) \<and>
          (if sum_list (cnt ! i) = 0
           then list_all (\<lambda>p. p = Fin 0) (rows (p_i s') ! i)
           else \<exists>t. fsum (rows (p_i s') ! i) = Fin t \<and> \<bar>t - 1\<bar> \<le> 1 / 2 ^ 53)"
  proof (intro allI impI)
    fix i assume i: "i < length cnt"
    let ?cs = "cnt ! i"
    have a: "sumBins (counts_row ?cs) \<noteq> Fin 0" "is_fin (sumBins (counts_row ?cs))"
      by (simp_all add: sumBins_counts del: sum_list_eq_0_iff)
    have b: "rows (p_i s') ! i =
               map (\<lambda>c. rd (fdiv (Fin (real c)) (sumBins (counts_row ?cs)))) ?cs"
      unfolding row[OF i] by (rule normalize_entries)
    have f: "list_all is_fin (rows (p_i s') ! i)"
      unfolding row[OF i] by (rule normalize_row_fin)
    have d: "if sum_list ?cs = 0
             then list_all (\<lambda>p. p = Fin 0) (rows (p_i s') ! i)
             else \<exists>t. fsum (rows (p_i s') ! i) = Fin t \<and> \<bar>t - 1\<bar> \<le> 1 / 2 ^ 53"
    proof (cases "sum_list ?cs = 0")
      case True
      show ?thesis unfolding row[OF i] by (subst if_P[OF True]) (rule normalize_row_zero[OF True])
    next
      case False
      show ?thesis
        unfolding row[OF i] by (subst if_not_P[OF False]) (rule normalize_row_near_one[OF False])
    qed
    show "sumBins (counts_row ?cs) \<noteq> Fin 0 \<and>
          is_fin (sumBins (counts_row ?cs)) \<and>
          rows (p_i s') ! i =
            map (\<lambda>c. rd (fdiv (Fin (real c)) (sumBins (counts_row ?cs)))) ?cs \<and>
          list_all is_fin (rows (p_i s') ! i) \<and>
          (if sum_list ?cs = 0
           then list_all (\<lambda>p. p = Fin 0) (rows (p_i s') ! i)
           else \<exists>t. fsum (rows (p_i s') ! i) = Fin t \<and> \<bar>t - 1\<bar> \<le> 1 / 2 ^ 53)"
      using a b f d by blast
  qed
  then show ?thesis using c len by blast
qed

theorem occupancy_rows_normalized_witness:
  "initCalculation None example = Inr example_aggregate \<and>
   initCalculation (Some [(0, 0, 0), (0, 0, 7)]) (example_voxel 2 example_angles2) =
     Inr example_local \<and>
   (\<exists>t. fsum (rows (p_i example_aggregate) ! 0) = Fin t \<and> \<bar>t - 1\<bar> \<le> 1 / 2 ^ 53) \<and>
   (\<exists>t. fsum (rows (p_i example_local) ! 0) = Fin t \<and> \<bar>t - 1\<bar> \<le> 1 / 2 ^ 53) \<and>
   list_all (\<lambda>p. p = Fin 0) (rows (p_i example_local) ! 1)"
proof -
  from occupancy_rows_normalized [OF example_init_agg]
  have a: "\<forall>i<length [[2, 1 :: nat]].
      (if sum_list ([[2, 1]] ! i) = (0::nat)
       then list_all (\<lambda>p. p = Fin 0) (rows (p_i example_aggregate) ! i)
       else \<exists>t. fsum (rows (p_i example_aggregate) ! i) = Fin t \<and> \<bar>t - 1\<bar> \<le> 1 / 2 ^ 53)"
    unfolding example_raw by blast
  from occupancy_rows_normalized [OF example_init_local]
  have l: "\<forall>i<length [[1, 0, 1], [0, 0, 0 :: nat]].
      (if sum_list ([[1, 0, 1], [0, 0, 0]] ! i) = (0::nat)
       then list_all (\<lambda>p. p = Fin 0) (rows (p_i example_local) ! i)
       else \<exists>t. fsum (rows (p_i example_local) ! i) = Fin t \<and> \<bar>t - 1\<bar> \<le> 1 / 2 ^ 53)"
    unfolding example_raw_local by blast
  have a0: "\<exists>t. fsum (rows (p_i example_aggregate) ! 0) = Fin t \<and> \<bar>t - 1\<bar> \<le> 1 / 2 ^ 53"
    using a[rule_format, of 0] by (simp del: abs_le_iff)
  have l0: "\<exists>t. fsum (rows (p_i example_local) ! 0) = Fin t \<and> \<bar>t - 1\<bar> \<le> 1 / 2 ^ 53"
    using l[rule_format, of 0] by (simp del: abs_le_iff)
  have l1: "list_all (\<lambda>p. p = Fin 0) (rows (p_i example_local) ! 1)"
    using l[rule_format, of 1] by simp
  show ?thesis using example_init_agg example_init_local a0 l0 l1 by blast
qed

lemma banded_levels:
  "grayLevels banded =
   sort (remdups (map (elem (discretizedImageArray banded))
                      (coords (shape (discretizedImageArray banded)))))"
  by code_simp

lemma banded_select: "select (discretizedImageArray banded) (maskArray banded) = Inr [1, 3, 1]"
  by code_simp

lemma banded_raw: "raw_p_i None banded = Inr [[2, 1]]"
  by code_simp

lemma banded_target:
  "target_rows None banded = Inr \<lparr>ncols = 3, rows = [[Fin 10, Fin 30, Fin 40]]\<rparr>"
  by code_simp

lemma banded_init: "initCalculation None banded = Inr banded_aggregate"
  by (simp add: initCalculation_def banded_target banded_raw banded_aggregate_def)

text \<open>
  Claim C6, as stated, fails. The discretized volume \<open>[1, 2, 3, 1]\<close> has the gray-level
  value set \<open>[1, 2, 3]\<close>, and its only voxel of level 2 is outside the mask: the masked
  voxels are discretized to \<open>[1, 3, 1]\<close> and the claimed occupancy row is \<open>[2, 0, 1]\<close>.
  The code takes the counts of \<^verbatim>\<open>np.unique\<close>, \<open>[2, 1]\<close>, so the level 2, which does not
  occur in the mask, has no entry and the row of \<open>p_i\<close> has two columns.
\<close>

theorem aggregate_occupancy_counterexample:
  "grayLevels banded = [1, 2, 3] \<and>
   grayLevels banded =
     sort (remdups (map (elem (discretizedImageArray banded))
                        (coords (shape (discretizedImageArray banded))))) \<and>
   select (discretizedImageArray banded) (maskArray banded) = Inr [1, 3, 1] \<and>
   map (count_list [1, 3, 1]) (grayLevels banded) = [2, 0, 1] \<and>
   initCalculation None banded = Inr banded_aggregate \<and>
   raw_p_i None banded = Inr [[2, 1]] \<and>
   ncols (p_i banded_aggregate) = 2 \<and>
   length (rows (p_i banded_aggregate) ! 0) = 2"
proof -
  have g: "grayLevels banded = [1, 2, 3]" by (simp add: banded_def)
  have c: "map (count_list [1, 3, 1]) (grayLevels banded) = [2, 0, 1]" unfolding g by simp
  have n: "ncols (p_i banded_aggregate) = 2 \<and> length (rows (p_i banded_aggregate) ! 0) = 2"
    by (simp add: banded_aggregate_def normalize_row_def counts_row_def)
  show ?thesis using g banded_levels banded_select c banded_init banded_raw n by blast
qed

text \<open>
  Claim C6, amended. In aggregate mode the sample is the single row of the voxels where
  the mask is true, in C order, and the occupancy is a single row that holds, for each
  distinct level occurring among the masked voxels, in ascending order, the number of
  masked voxels discretized to that level; every entry is at least 1, and a level that
  does not occur among the masked voxels has no entry. If the gray-level set is sorted,
  without duplicates, and holds the levels that occur among the masked voxels and no
  other, then this row is the row of the counts of the gray levels.
\<close>

theorem aggregate_sample_and_occupancy:
  assumes "initCalculation None s = Inr s'"
  shows "\<exists>tv ds.
           select (imageArray s) (maskArray s) = Inr tv \<and>
           tv = map (elem (imageArray s))
                  (filter (elem (maskArray s)) (coords (shape (maskArray s)))) \<and>
           targetVoxelArray s' = \<lparr>ncols = length tv, rows = [tv]\<rparr> \<and>
           select (discretizedImageArray s) (maskArray s) = Inr ds \<and>
           ds = map (elem (discretizedImageArray s))
                  (filter (elem (maskArray s)) (coords (shape (maskArray s)))) \<and>
           raw_p_i None s = Inr [map (count_list ds) (sort (remdups ds))] \<and>
           rows (p_i s') = [normalize_row (counts_row (map (count_list ds) (sort (remdups ds))))] \<and>
           (\<forall>c \<in> set (map (count_list ds) (sort (remdups ds))). 0 < c) \<and>
           (sorted (grayLevels s) \<and> distinct (grayLevels s) \<and> set (grayLevels s) = set ds \<longrightarrow>
              raw_p_i None s = Inr [map (count_list ds) (grayLevels s)])"
proof -
  from assms obtain tv ds where tv: "select (imageArray s) (maskArray s) = Inr tv"
    and ds: "select (discretizedImageArray s) (maskArray s) = Inr ds"
    and t: "targetVoxelArray s' = \<lparr>ncols = length tv, rows = [tv]\<rparr>"
    and p: "rows (p_i s') = [normalize_row (counts_row (unique_counts ds))]"
    by (auto simp: initCalculation_def target_rows_def raw_p_i_def split: sum.splits)
  have tv': "tv = map (elem (imageArray s))
                  (filter (elem (maskArray s)) (coords (shape (maskArray s))))"
    using tv by (auto simp: select_def split: if_splits)
  have ds': "ds = map (elem (discretizedImageArray s))
                  (filter (elem (maskArray s)) (coords (shape (maskArray s))))"
    using ds by (auto simp: select_def split: if_splits)
  have pos: "\<forall>c \<in> set (map (count_list ds) (sort (remdups ds))). 0 < c"
    using count_list_0_iff[of ds] by (auto simp: neq0_conv[symmetric] simp del: neq0_conv)
  have gl: "sort (remdups ds) = grayLevels s"
    if "sorted (grayLevels s)" "distinct (grayLevels s)" "set (grayLevels s) = set ds"
    using that by (intro sorted_distinct_set_unique) auto
  show ?thesis using tv tv' ds ds' t p pos gl
    by (auto simp: raw_p_i_def unique_counts_def)
qed

lemma banded_ds:
  "map (elem (discretizedImageArray banded))
     (filter (elem (maskArray banded)) (coords (shape (maskArray banded)))) = [1, 3, 1]"
  using banded_select by (simp add: select_def split: if_splits)

theorem aggregate_sample_and_occupancy_witness:
  "initCalculation None banded = Inr banded_aggregate \<and>
   targetVoxelArray banded_aggregate = \<lparr>ncols = 3, rows = [[Fin 10, Fin 30, Fin 40]]\<rparr> \<and>
   raw_p_i None banded = Inr [map (count_list [1, 3, 1 :: int]) (sort (remdups [1, 3, 1]))]"
proof -
  from aggregate_sample_and_occupancy [OF banded_init]
  have "raw_p_i None banded =
        Inr [map (count_list (map (elem (discretizedImageArray banded))
                (filter (elem (maskArray banded)) (coords (shape (maskArray banded))))))
              (sort (remdups (map (elem (discretizedImageArray banded))
                (filter (elem (maskArray banded)) (coords (shape (maskArray banded)))))))]"
    by blast
  then show ?thesis using banded_init
    by (simp only: banded_ds) (simp add: banded_aggregate_def)
qed

section \<open>Aggregate mode against local mode\<close>



















































lemma three_binned:
  "three_padded\<lparr>discretizedImageArray := discretizedImageArray three_voxels,
      discretizedImageArray := pad 2 0 (discretizedImageArray three_voxels)\<rparr>
   = three_padded"
  by (simp add: three_padded_def)












end
